theory Spec2Isabelle
  imports Main
begin

section \<open>JavaScript strings\<close>

text \<open>
  A JavaScript string is a sequence of UTF-16 code units. The sources contain text outside
  ASCII (fullwidth punctuation in the history search, Chinese text in the prompt
  configuration), so a string is modelled as the list of its code units; \<open>asc\<close> embeds an
  ASCII literal, and code units above 127 are written as hexadecimal numerals.
\<close>

type_synonym jsstring = "nat list"

definition asc :: "string \<Rightarrow> jsstring" where
  "asc s = map of_char s"

text \<open>\<open>Array.prototype.join\<close>: the elements separated by \<open>sep\<close>; the empty array gives \<open>''\<close>.\<close>

fun join :: "jsstring \<Rightarrow> jsstring list \<Rightarrow> jsstring" where
  "join sep [] = []"
| "join sep [x] = x"
| "join sep (x # y # ys) = x @ sep @ join sep (y # ys)"

text \<open>A string is truthy exactly when it is not empty.\<close>

definition truthy :: "jsstring \<Rightarrow> bool" where
  "truthy s = (s \<noteq> [])"

text \<open>
  \<open>String.prototype.trim\<close> removes the white space and line terminators of ECMAScript
  from both ends: TAB, LF, VT, FF, CR, SPACE, NBSP, the Unicode space separators
  (U+1680, U+2000..U+200A, U+202F, U+205F, U+3000), U+2028, U+2029 and U+FEFF.
\<close>

definition isWhiteSpace :: "nat \<Rightarrow> bool" where
  "isWhiteSpace c =
     (c \<in> set [9, 10, 11, 12, 13, 32, 0xA0, 0x1680, 0x2028, 0x2029, 0x202F, 0x205F,
                0x3000, 0xFEFF]
      \<or> (0x2000 \<le> c \<and> c \<le> 0x200A))"

definition trim :: "jsstring \<Rightarrow> jsstring" where
  "trim s = rev (dropWhile isWhiteSpace (rev (dropWhile isWhiteSpace s)))"

text \<open>\<open>replaceAll\<close> for a pattern and a replacement of one code unit each.\<close>

definition replaceAll :: "nat \<Rightarrow> nat \<Rightarrow> jsstring \<Rightarrow> jsstring" where
  "replaceAll a b s = map (\<lambda>c. if c = a then b else c) s"

text \<open>\<open>startsWith\<close> and \<open>includes\<close> compare code units; \<open>includes\<close> (here \<open>includes_str\<close>) tries every position.\<close>

definition startsWith :: "jsstring \<Rightarrow> jsstring \<Rightarrow> bool" where
  "startsWith s p = (take (length p) s = p)"

fun includes_str :: "jsstring \<Rightarrow> jsstring \<Rightarrow> bool" where
  "includes_str [] q = (q = [])"
| "includes_str (c # s) q = (startsWith (c # s) q \<or> includes_str s q)"

text \<open>\<open>String(n)\<close> for an integer: decimal digits, with a minus sign below zero.\<close>

fun digits :: "nat \<Rightarrow> jsstring" where
  "digits n = (if n < 10 then [48 + n] else digits (n div 10) @ [48 + n mod 10])"

declare digits.simps [simp del]

definition showInt :: "int \<Rightarrow> jsstring" where
  "showInt i = (if i < 0 then 45 # digits (nat (- i)) else digits (nat i))"

text \<open>\<open>padStart(2, '0')\<close>.\<close>

definition padStart2 :: "jsstring \<Rightarrow> jsstring" where
  "padStart2 s = replicate (2 - length s) 48 @ s"

text \<open>\<open>x || ''\<close> for an optional string (\<open>null\<close> and \<open>undefined\<close> are \<open>None\<close>).\<close>

definition orEmpty :: "jsstring option \<Rightarrow> jsstring" where
  "orEmpty x = (case x of None \<Rightarrow> [] | Some s \<Rightarrow> s)"

text \<open>An optional string is truthy when it is present and not empty.\<close>

definition truthyOpt :: "jsstring option \<Rightarrow> bool" where
  "truthyOpt x = (case x of None \<Rightarrow> False | Some s \<Rightarrow> truthy s)"

section \<open>The runtime and the effects of a handler\<close>

text \<open>
  What the JavaScript runtime computes and the sources only call is a parameter:
  Unicode lower-casing, the parsing of a timestamp into local calendar fields
  (\<open>None\<close> for an invalid date), the digits of \<open>toISOString\<close> and the current time.
\<close>

record LocalTime =
  getFullYear :: int
  getMonth :: nat
  getDate :: nat
  getHours :: nat
  getMinutes :: nat
  getSeconds :: nat

record runtime =
  toLowerCase :: "jsstring \<Rightarrow> jsstring"
  parseDate :: "jsstring \<Rightarrow> LocalTime option"
  isoDigits :: "int \<Rightarrow> jsstring"
  dateNow :: int

text \<open>
  A rejected promise or a thrown exception carries a value; the handlers use its string
  conversion and, in places, its \<open>message\<close> property.
\<close>

datatype error = Rejected (errText: jsstring) (errMessage: "jsstring option")

text \<open>
  \<open>new Date(ms).toISOString()\<close>: a RangeError outside the valid time range of
  \<open>\<plusminus>8.64e15\<close> ms, otherwise the calendar digits followed by \<open>Z\<close>.
\<close>

definition toISOString :: "runtime \<Rightarrow> int \<Rightarrow> error + jsstring" where
  "toISOString rt ms =
     (if 8640000000000000 < \<bar>ms\<bar>
      then Inl (Rejected (asc ''RangeError: Invalid time value'') (Some (asc ''Invalid time value'')))
      else Inr (isoDigits rt ms @ asc ''Z''))"

text \<open>
  A handler ends by returning or by throwing (an \<open>async\<close> function: by resolving or
  rejecting); the component state it has reached is kept in both cases.
\<close>

datatype 's completion = Returned 's | Threw error 's

text \<open>The state a handler has reached when it ends, whether it returned or threw.\<close>

fun finalState :: "'s completion \<Rightarrow> 's" where
  "finalState (Returned s) = s"
| "finalState (Threw e s) = s"

text \<open>
  The notifications shown (\<open>message.success\<close>, \<open>message.warning\<close>,
  \<open>message.error\<close>), the console lines that report an error, and the backend commands
  invoked are logged in the component state, oldest first.
\<close>

datatype notice = MsgSuccess jsstring | MsgWarning jsstring | MsgError jsstring

datatype logline = ConsoleError jsstring error | ConsoleDebug jsstring error
  | ConsoleLog jsstring error

section \<open>The popup types (\<open>types/popup.d.ts\<close>) and the backend\<close>

text \<open>
  An optional property and a \<open>null\<close> are both \<open>None\<close>. The identifier and message
  of the two request types are prefixed (\<open>req_\<close>, \<open>preq_\<close>), as are the \<open>id\<close>,
  \<open>name\<close>, \<open>description\<close> and \<open>type\<close> of a custom prompt (\<open>prompt_\<close>); the
  \<open>note\<close> of a response is \<open>dish_note\<close>.
\<close>

record McpRequest =
  req_id :: jsstring
  req_message :: jsstring
  menu :: "jsstring list option"
  chalkboard :: "bool option"
  project_root_path :: "jsstring option"

text \<open>The request as the history tab declares it (\<open>PopupRequest\<close> in \<open>HistoryTab.vue\<close>).\<close>

record PopupRequest =
  preq_id :: jsstring
  preq_message :: jsstring
  predefined_options :: "jsstring list option"
  is_markdown :: bool
  preq_project_root_path :: "jsstring option"

datatype prompt_kind = Normal | Conditional

record CustomPrompt =
  prompt_id :: jsstring
  prompt_name :: jsstring
  content :: jsstring
  prompt_description :: "jsstring option"
  sort_order :: int
  created_at :: jsstring
  updated_at :: jsstring
  prompt_type :: "prompt_kind option"
  condition_text :: "jsstring option"
  template_true :: "jsstring option"
  template_false :: "jsstring option"
  current_state :: "bool option"

record IngredientAttachment =
  spice_id :: jsstring

record KitchenTicket =
  cooked_at :: "jsstring option"
  ticket_id :: "jsstring option"
  station :: "jsstring option"

record DishResponse =
  dish_note :: "jsstring option"
  toppings :: "jsstring list"
  ingredients :: "IngredientAttachment list"
  ticket :: KitchenTicket

text \<open>A block of the backend's clipboard read; every property may be missing.\<close>

record ClipboardBlock =
  block_spice_id :: "jsstring option"
  block_bytes :: "nat list option"
  block_dish_type :: "jsstring option"

record HistoryEntrySummary =
  entry_id :: jsstring
  timestamp :: jsstring
  request_id :: "jsstring option"
  source :: "jsstring option"
  preview :: jsstring

record HistoryImage =
  filename :: jsstring
  media_type :: jsstring
  data_uri :: jsstring

text \<open>The stored response is untyped (\<open>any\<close>) in the source; its JSON text stands for it.\<close>

record HistoryEntryDetail =
  summary :: HistoryEntrySummary
  request :: "PopupRequest option"
  response :: jsstring
  markdown :: jsstring
  images :: "HistoryImage list"

record CustomPromptConfig =
  prompts :: "CustomPrompt list option"
  config_enabled :: "bool option"

text \<open>
  The backend commands the components invoke, with their arguments, and the answers of
  the backend: for each command a function from the arguments to an error (the promise
  rejects) or a value.
\<close>

datatype call =
    Export_mcp_history_entry_zip jsstring
  | Export_mcp_history_by_time_range_zip jsstring jsstring
  | Delete_mcp_history_by_time_range jsstring jsstring
  | Delete_mcp_history_entry jsstring
  | List_mcp_history_entries nat
  | Get_mcp_history_entry jsstring
  | Stash_ingredient_bytes_cmd "nat list" jsstring jsstring
  | Read_clipboard_ingredients_cached
  | Discard_spice_cmd jsstring
  | Update_custom_prompt_order "jsstring list"
  | Update_conditional_prompt_state jsstring bool
  | Get_custom_prompt_config
  | Send_mcp_response DishResponse
  | Exit_app

record backend =
  export_mcp_history_entry_zip :: "jsstring \<Rightarrow> error + jsstring"
  export_mcp_history_by_time_range_zip :: "jsstring \<Rightarrow> jsstring \<Rightarrow> error + jsstring"
  delete_mcp_history_by_time_range :: "jsstring \<Rightarrow> jsstring \<Rightarrow> error + int"
  delete_mcp_history_entry :: "jsstring \<Rightarrow> error + unit"
  list_mcp_history_entries :: "nat \<Rightarrow> error + HistoryEntrySummary list option"
  get_mcp_history_entry :: "jsstring \<Rightarrow> error + HistoryEntryDetail"
  stash_ingredient_bytes_cmd :: "nat list \<Rightarrow> jsstring \<Rightarrow> jsstring \<Rightarrow> error + jsstring"
  read_clipboard_ingredients_cached :: "error + ClipboardBlock list"
  update_custom_prompt_order :: "jsstring list \<Rightarrow> error + unit"
  update_conditional_prompt_state :: "jsstring \<Rightarrow> bool \<Rightarrow> error + unit"
  get_custom_prompt_config :: "error + CustomPromptConfig option"
  send_mcp_response :: "DishResponse \<Rightarrow> error + unit"
  exit_app :: "error + unit"

record effects =
  messages :: "notice list"
  console :: "logline list"
  invoked :: "call list"

section \<open>The history tab (\<open>HistoryTab.vue\<close>)\<close>

text \<open>
  The texts of the notifications: ``select a start and an end time first'',
  ``exported: '', ``export by time range failed:'', ``deleted '' \<open>n\<close> `` entries'',
  ``delete by time range failed:'', ``loading the history failed:'', ``loading failed:
  the backend command does not exist ...'', ``deleted'', ``delete failed:'',
  ``export failed:'' and ``loading the history detail failed:''.
\<close>

definition txt_select_range :: jsstring where
  "txt_select_range =
     [0x8BF7, 0x5148, 0x9009, 0x62E9, 0x5F00, 0x59CB, 0x65F6, 0x95F4, 0x548C, 0x7ED3,
       0x675F, 0x65F6, 0x95F4]"

definition txt_exported :: jsstring where
  "txt_exported =
     [0x5DF2, 0x5BFC, 0x51FA] @ asc '':''"

definition txt_export_range_failed :: jsstring where
  "txt_export_range_failed =
     [0x6309, 0x65F6, 0x95F4, 0x6BB5, 0x5BFC, 0x51FA, 0x5931, 0x8D25] @ asc '':''"

definition txt_deleted_pre :: jsstring where
  "txt_deleted_pre =
     [0x5DF2, 0x5220, 0x9664] @ asc '' ''"

definition txt_deleted_post :: jsstring where
  "txt_deleted_post =
     asc '' '' @ [0x6761]"

definition txt_delete_range_failed :: jsstring where
  "txt_delete_range_failed =
     [0x6309, 0x65F6, 0x95F4, 0x6BB5, 0x5220, 0x9664, 0x5931, 0x8D25] @ asc '':''"

definition txt_load_failed :: jsstring where
  "txt_load_failed =
     [0x52A0, 0x8F7D, 0x5386, 0x53F2, 0x8BB0, 0x5F55, 0x5931, 0x8D25] @ asc '':''"

definition txt_backend_missing :: jsstring where
  "txt_backend_missing =
     [0x52A0, 0x8F7D, 0x5931, 0x8D25, 0xFF1A, 0x540E, 0x7AEF, 0x547D, 0x4EE4, 0x4E0D,
       0x5B58, 0x5728, 0x3002, 0x4F60, 0x5927, 0x6982, 0x7387, 0x8FD0, 0x884C, 0x7684,
       0x662F, 0x65E7, 0x7248] @ asc '' sanshu-ui'' @ [0xFF08, 0x524D, 0x7AEF, 0x66F4,
       0x65B0, 0x4E86, 0x4F46, 0x540E, 0x7AEF, 0x6CA1, 0x91CD, 0x7F16, 0x8BD1]
       @ asc ''/'' @ [0x6CA1, 0x91CD, 0x542F, 0xFF09, 0x3002, 0x8BF7, 0x91CD, 0x65B0,
       0x7F16, 0x8BD1, 0x5E76, 0x91CD, 0x542F, 0x4E09, 0x672F, 0x3002]"

definition txt_deleted :: jsstring where
  "txt_deleted =
     [0x5DF2, 0x5220, 0x9664]"

definition txt_delete_failed :: jsstring where
  "txt_delete_failed =
     [0x5220, 0x9664, 0x5931, 0x8D25] @ asc '':''"


definition txt_detail_failed :: jsstring where
  "txt_detail_failed =
     [0x52A0, 0x8F7D, 0x5386, 0x53F2, 0x8BE6, 0x60C5, 0x5931, 0x8D25] @ asc '':''"

text \<open>
  The state of the tab. The state that only drives the rendering of the list (the
  expanded day groups, recomputed by \<open>ensureDefaultExpandedGroups\<close> after a load and
  extended by \<open>openEntry\<close>) is not part of the model.
\<close>

record HistoryTab = effects +
  entries :: "HistoryEntrySummary list"
  search :: jsstring
  range :: "(int \<times> int) option"
  selectedId :: jsstring
  selectedDetail :: "HistoryEntryDetail option"
  loading :: bool
  detailLoading :: bool

definition notify :: "notice \<Rightarrow> 'a effects_scheme \<Rightarrow> 'a effects_scheme" where
  "notify n st = st\<lparr>messages := messages st @ [n]\<rparr>"

definition report :: "logline \<Rightarrow> 'a effects_scheme \<Rightarrow> 'a effects_scheme" where
  "report l st = st\<lparr>console := console st @ [l]\<rparr>"

definition invoke :: "call \<Rightarrow> 'a effects_scheme \<Rightarrow> 'a effects_scheme" where
  "invoke c st = st\<lparr>invoked := invoked st @ [c]\<rparr>"

definition normalizeSearchText :: "runtime \<Rightarrow> jsstring \<Rightarrow> jsstring" where
  "normalizeSearchText rt input =
     toLowerCase rt
       (replaceAll 0x3000 32 (replaceAll 0xFF0F 47 (replaceAll 0xFF1A 58 (trim input))))"

definition formatTimeForSearch :: "runtime \<Rightarrow> jsstring \<Rightarrow> jsstring" where
  "formatTimeForSearch rt ts =
     (case parseDate rt ts of
        None \<Rightarrow> ts
      | Some d \<Rightarrow>
          (let y = showInt (getFullYear d);
               m = digits (getMonth d + 1);
               day = digits (getDate d);
               hh = padStart2 (digits (getHours d));
               mm = padStart2 (digits (getMinutes d));
               ss = padStart2 (digits (getSeconds d))
           in y @ asc ''/'' @ m @ asc ''/'' @ day @ asc '' '' @ hh @ asc '':'' @ mm
              @ asc '':'' @ ss @ asc '' '' @ hh @ asc '':'' @ mm @ asc '' '' @ y
              @ asc ''/'' @ m))"

definition getRangeIso ::
  "runtime \<Rightarrow> (int \<times> int) option \<Rightarrow> error + (jsstring option \<times> jsstring option)" where
  "getRangeIso rt r =
     (case r of
        None \<Rightarrow> Inr (None, None)
      | Some (startMs, endMs) \<Rightarrow>
          if startMs = 0 \<or> endMs = 0 then Inr (None, None)
          else (case toISOString rt startMs of
                  Inl e \<Rightarrow> Inl e
                | Inr startIso \<Rightarrow>
                    (case toISOString rt endMs of
                       Inl e \<Rightarrow> Inl e
                     | Inr endIso \<Rightarrow> Inr (Some startIso, Some endIso))))"

definition loadEntries :: "backend \<Rightarrow> HistoryTab \<Rightarrow> HistoryTab" where
  "loadEntries be st0 =
     (let st = invoke (List_mcp_history_entries 500) (st0\<lparr>loading := True\<rparr>)
      in (case list_mcp_history_entries be 500 of
            Inr list \<Rightarrow>
              st\<lparr>entries := (case list of None \<Rightarrow> [] | Some l \<Rightarrow> l), loading := False\<rparr>
          | Inl err \<Rightarrow>
              (let st1 = report (ConsoleError txt_load_failed err) st;
                   st2 = (if includes_str (errText err) (asc ''not found'')
                             \<and> includes_str (errText err) (asc ''list_mcp_history_entries'')
                          then notify (MsgError txt_backend_missing) st1
                          else notify (MsgError (txt_load_failed @ asc '' '' @ errText err)) st1)
               in st2\<lparr>loading := False\<rparr>)))"

definition exportRangeZip :: "runtime \<Rightarrow> backend \<Rightarrow> HistoryTab \<Rightarrow> HistoryTab completion" where
  "exportRangeZip rt be st =
     (case getRangeIso rt (range st) of
        Inl e \<Rightarrow> Threw e st
      | Inr (Some startIso, Some endIso) \<Rightarrow>
          if \<not> truthy startIso \<or> \<not> truthy endIso
          then Returned (notify (MsgWarning txt_select_range) st)
          else (let st1 = invoke (Export_mcp_history_by_time_range_zip startIso endIso) st
                in (case export_mcp_history_by_time_range_zip be startIso endIso of
                      Inr path \<Rightarrow>
                        Returned (notify (MsgSuccess (txt_exported @ asc '' '' @ path)) st1)
                    | Inl err \<Rightarrow>
                        Returned
                          (notify (MsgError (txt_export_range_failed @ asc '' '' @ errText err))
                             (report (ConsoleError txt_export_range_failed err) st1))))
      | Inr _ \<Rightarrow> Returned (notify (MsgWarning txt_select_range) st))"

definition deleteRange :: "runtime \<Rightarrow> backend \<Rightarrow> HistoryTab \<Rightarrow> HistoryTab completion" where
  "deleteRange rt be st =
     (case getRangeIso rt (range st) of
        Inl e \<Rightarrow> Threw e st
      | Inr (Some startIso, Some endIso) \<Rightarrow>
          if \<not> truthy startIso \<or> \<not> truthy endIso
          then Returned (notify (MsgWarning txt_select_range) st)
          else (let st1 = invoke (Delete_mcp_history_by_time_range startIso endIso) st
                in (case delete_mcp_history_by_time_range be startIso endIso of
                      Inr deleted \<Rightarrow>
                        Returned
                          (loadEntries be
                             ((notify
                                 (MsgSuccess (txt_deleted_pre @ showInt deleted @ txt_deleted_post))
                                 st1)
                              \<lparr>selectedId := [], selectedDetail := None\<rparr>))
                    | Inl err \<Rightarrow>
                        Returned
                          (notify (MsgError (txt_delete_range_failed @ asc '' '' @ errText err))
                             (report (ConsoleError txt_delete_range_failed err) st1))))
      | Inr _ \<Rightarrow> Returned (notify (MsgWarning txt_select_range) st))"

definition haystack :: "runtime \<Rightarrow> HistoryEntrySummary \<Rightarrow> jsstring" where
  "haystack rt e =
     normalizeSearchText rt
       (join (asc '' '')
          [entry_id e, preview e, orEmpty (request_id e), orEmpty (source e), timestamp e,
           formatTimeForSearch rt (timestamp e)])"

definition filteredEntries ::
  "runtime \<Rightarrow> HistoryEntrySummary list \<Rightarrow> jsstring \<Rightarrow> HistoryEntrySummary list" where
  "filteredEntries rt es s =
     (let q = normalizeSearchText rt s
      in if \<not> truthy q then es else filter (\<lambda>e. includes_str (haystack rt e) q) es)"

definition openEntry :: "backend \<Rightarrow> jsstring \<Rightarrow> HistoryTab \<Rightarrow> HistoryTab" where
  "openEntry be ident st0 =
     (let st = invoke (Get_mcp_history_entry ident)
                 (st0\<lparr>selectedId := ident, detailLoading := True\<rparr>)
      in (case get_mcp_history_entry be ident of
            Inr d \<Rightarrow> st\<lparr>selectedDetail := Some d, detailLoading := False\<rparr>
          | Inl err \<Rightarrow>
              (notify (MsgError (txt_detail_failed @ asc '' '' @ errText err))
                 (report (ConsoleError txt_detail_failed err) st))
              \<lparr>detailLoading := False\<rparr>))"

definition deleteSelected :: "backend \<Rightarrow> HistoryTab \<Rightarrow> HistoryTab" where
  "deleteSelected be st =
     (if \<not> truthy (selectedId st) then st
      else (let st1 = invoke (Delete_mcp_history_entry (selectedId st)) st
            in (case delete_mcp_history_entry be (selectedId st) of
                  Inr _ \<Rightarrow>
                    loadEntries be
                      ((notify (MsgSuccess txt_deleted) st1)
                       \<lparr>selectedId := [], selectedDetail := None\<rparr>)
                | Inl err \<Rightarrow>
                    notify (MsgError (txt_delete_failed @ asc '' '' @ errText err))
                      (report (ConsoleError txt_delete_failed err) st1))))"


section \<open>The popup input (\<open>PopupInput.vue\<close>, in \<open>src/unnamed/part_002\<close>)\<close>

text \<open>
  The handlers are \<open>async\<close>; each is modelled as one step from the state before to
  the state after. Where a handler tests the ingredient list and pushes to it, both
  happen in one synchronous stretch of the source, after the last \<open>await\<close> of the
  image. Console lines that report no error, the revoking of object URLs, the focus and
  input-method handling, the set-up of listeners and the drag-and-drop reordering of the
  prompts are left out: none of them writes the note, the toppings or the ingredients.
\<close>

text \<open>
  The texts of the notifications and console lines: ``added '' \<open>n\<close> `` ingredients'',
  ``reading the clipboard ingredients failed: '', ``handling the pasted HTML image
  failed:'', ``ingredient '' \<open>name\<close> `` already exists'' / `` added'' / `` failed'',
  ``handling the ingredient failed:'', ``order saved'', ``saving the order failed'',
  ``loading the custom prompts failed:'', ``context state saved'', ``saving the
  conditional prompt state failed:'', ``saving the settings failed: '', ``the original
  text was quoted into the input'' and ``navigator.clipboard.read() failed:''.
\<close>

definition txt_added_pre :: jsstring where
  "txt_added_pre =
     [0x5DF2, 0x6DFB, 0x52A0] @ asc '' ''"

definition txt_added_post :: jsstring where
  "txt_added_post =
     asc '' '' @ [0x4E2A, 0x98DF, 0x6750]"

definition txt_clipboard_failed :: jsstring where
  "txt_clipboard_failed =
     [0x8BFB, 0x53D6, 0x526A, 0x8D34, 0x677F, 0x98DF, 0x6750, 0x5931, 0x8D25] @ asc '': ''"

definition txt_html_paste_failed :: jsstring where
  "txt_html_paste_failed =
     asc ''HTML '' @ [0x56FE, 0x7247, 0x7C98, 0x8D34, 0x5904, 0x7406, 0x5931, 0x8D25]
       @ asc '':''"

definition txt_ingredient :: jsstring where
  "txt_ingredient =
     [0x98DF, 0x6750] @ asc '' ''"

definition txt_exists :: jsstring where
  "txt_exists =
     asc '' '' @ [0x5DF2, 0x5B58, 0x5728]"

definition txt_added :: jsstring where
  "txt_added =
     asc '' '' @ [0x5DF2, 0x6DFB, 0x52A0]"

definition txt_ingredient_failed :: jsstring where
  "txt_ingredient_failed =
     [0x98DF, 0x6750, 0x5904, 0x7406, 0x5931, 0x8D25] @ asc '':''"

definition txt_failed :: jsstring where
  "txt_failed =
     asc '' '' @ [0x5904, 0x7406, 0x5931, 0x8D25]"

definition txt_order_saved :: jsstring where
  "txt_order_saved =
     [0x6392, 0x5E8F, 0x5DF2, 0x4FDD, 0x5B58]"

definition txt_order_failed_log :: jsstring where
  "txt_order_failed_log =
     [0x4FDD, 0x5B58, 0x6392, 0x5E8F, 0x5931, 0x8D25] @ asc '':''"

definition txt_order_failed :: jsstring where
  "txt_order_failed =
     [0x4FDD, 0x5B58, 0x6392, 0x5E8F, 0x5931, 0x8D25]"

definition txt_load_prompts_failed :: jsstring where
  "txt_load_prompts_failed =
     asc ''PopupInput: '' @ [0x52A0, 0x8F7D, 0x81EA, 0x5B9A, 0x4E49] @ asc ''prompt''
       @ [0x5931, 0x8D25] @ asc '':''"

definition txt_state_saved :: jsstring where
  "txt_state_saved =
     [0x4E0A, 0x4E0B, 0x6587, 0x8FFD, 0x52A0, 0x72B6, 0x6001, 0x5DF2, 0x4FDD, 0x5B58]"

definition txt_state_failed_log :: jsstring where
  "txt_state_failed_log =
     [0x4FDD, 0x5B58, 0x6761, 0x4EF6, 0x6027] @ asc ''prompt'' @ [0x72B6, 0x6001, 0x5931,
       0x8D25] @ asc '':''"

definition txt_settings_failed :: jsstring where
  "txt_settings_failed =
     [0x4FDD, 0x5B58, 0x8BBE, 0x7F6E, 0x5931, 0x8D25] @ asc '': ''"

definition txt_quoted :: jsstring where
  "txt_quoted =
     [0x539F, 0x6587, 0x5185, 0x5BB9, 0x5DF2, 0x5F15, 0x7528, 0x5230, 0x8F93, 0x5165,
       0x6846]"

definition txt_clipboard_debug :: jsstring where
  "txt_clipboard_debug =
     asc ''navigator.clipboard.read() '' @ [0x8BFB, 0x53D6, 0x5931, 0x8D25] @ asc '':''"

text \<open>
  What the browser provides: object URLs for previews, \<open>fetch\<close> of a data URL, the
  capture groups of the \<open>img\<close> regular expression on a piece of HTML (the first group
  of the successive matches of \<open>/<img[^>]+src=["']([^"']+)["'][^>]*>/gi\<close>), and the
  asynchronous clipboard (\<open>None\<close> when \<open>navigator.clipboard.read\<close> is not there;
  otherwise the items, each a list of types with the blob \<open>getType\<close> resolves to).
\<close>

record File =
  file_name :: jsstring
  file_type :: jsstring
  arrayBuffer :: "error + nat list"

record Blob =
  blob_type :: jsstring
  blob_bytes :: "nat list"

record ClipboardItemType =
  item_mime :: jsstring
  getType :: "error + nat list"

record browser =
  createObjectURL :: "nat list \<Rightarrow> jsstring"
  fetchBlob :: "jsstring \<Rightarrow> error + Blob"
  imgSrcMatches :: "jsstring \<Rightarrow> jsstring list"
  clipboardRead :: "(error + ClipboardItemType list list) option"

record DataTransferItem =
  item_kind :: jsstring
  item_type :: jsstring
  getAsFile :: "File option"

record DataTransfer =
  files :: "File list"
  items :: "DataTransferItem list option"
  text_html :: jsstring
  text_plain :: jsstring

record ClipboardEvent =
  defaultPrevented :: bool
  clipboardData :: "DataTransfer option"

record CachedIngredientItem =
  spiceId :: jsstring
  previewUrl :: jsstring

text \<open>The payload of the \<open>update\<close> event (\<open>data\<close> in the parent's handler).\<close>

record UpdateData =
  data_note :: jsstring
  data_toppings :: "jsstring list"
  data_spiceIds :: "jsstring list option"

text \<open>
  The state of the component: its refs, and the \<open>update\<close> events it has emitted. The
  fields \<open>note\<close>, \<open>toppings\<close> and \<open>ingredients\<close> are prefixed \<open>input_\<close>.
\<close>

record PopupInput = effects +
  input_note :: jsstring
  input_toppings :: "jsstring list"
  input_ingredients :: "CachedIngredientItem list"
  customPrompts :: "CustomPrompt list"
  sortablePrompts :: "CustomPrompt list"
  customPromptEnabled :: bool
  showInsertDialog :: bool
  pendingPromptContent :: jsstring
  emitted :: "UpdateData list"

definition guessFileExtensionFromMime :: "runtime \<Rightarrow> jsstring \<Rightarrow> jsstring" where
  "guessFileExtensionFromMime rt mime =
     (let normalized = toLowerCase rt mime
      in if normalized = asc ''image/png'' then asc ''png''
         else if normalized = asc ''image/jpeg'' then asc ''jpg''
         else if normalized = asc ''image/webp'' then asc ''webp''
         else if normalized = asc ''image/gif'' then asc ''gif''
         else if normalized = asc ''image/bmp'' then asc ''bmp''
         else asc ''png'')"

text \<open>\<open>split(/\r?\n/)\<close>: a line ends at LF or at CR LF; \<open>cur\<close> is the line read so far, reversed.\<close>

fun splitLines :: "jsstring \<Rightarrow> jsstring \<Rightarrow> jsstring list" where
  "splitLines cur [] = [rev cur]"
| "splitLines cur [c] = (if c = 10 then [rev cur, []] else [rev (c # cur)])"
| "splitLines cur (c # d # rest) =
     (if c = 13 \<and> d = 10 then rev cur # splitLines [] rest
      else if c = 10 then rev cur # splitLines [] (d # rest)
      else splitLines (c # cur) (d # rest))"

text \<open>
  The regular expression \<open>/(\.png|\.jpe?g|\.webp|\.gif|\.bmp|\.tiff?)(\?.*)?$/i\<close>: at some
  position one of the extensions, compared without regard to ASCII case, followed by the
  end of the string or by \<open>?\<close> and characters other than line terminators up to the end.
\<close>

definition lowerAscii :: "nat \<Rightarrow> nat" where
  "lowerAscii c = (if 65 \<le> c \<and> c \<le> 90 then c + 32 else c)"

definition isLineTerminator :: "nat \<Rightarrow> bool" where
  "isLineTerminator c = (c = 10 \<or> c = 13 \<or> c = 0x2028 \<or> c = 0x2029)"

definition imageExts :: "jsstring list" where
  "imageExts = [asc ''.png'', asc ''.jpg'', asc ''.jpeg'', asc ''.webp'', asc ''.gif'',
                asc ''.bmp'', asc ''.tif'', asc ''.tiff'']"

definition queryTail :: "jsstring \<Rightarrow> bool" where
  "queryTail r =
     (case r of [] \<Rightarrow> True | c # cs \<Rightarrow> c = 63 \<and> list_all (\<lambda>x. \<not> isLineTerminator x) cs)"

definition imageExtAt :: "jsstring \<Rightarrow> bool" where
  "imageExtAt s =
     list_ex (\<lambda>ext. startsWith (map lowerAscii s) ext \<and> queryTail (drop (length ext) s))
       imageExts"

fun imageExtTest :: "jsstring \<Rightarrow> bool" where
  "imageExtTest [] = False"
| "imageExtTest (c # s) = (imageExtAt (c # s) \<or> imageExtTest s)"

text \<open>\<open>/^[a-zA-Z]:[\\/]/\<close>: a drive letter, a colon, a backslash or a slash.\<close>

definition drivePath :: "jsstring \<Rightarrow> bool" where
  "drivePath s =
     (case s of
        c # d # e # _ \<Rightarrow>
          ((65 \<le> c \<and> c \<le> 90) \<or> (97 \<le> c \<and> c \<le> 122)) \<and> d = 58 \<and> (e = 92 \<or> e = 47)
      | _ \<Rightarrow> False)"

definition looksLikeImageFilePathList :: "jsstring \<Rightarrow> bool" where
  "looksLikeImageFilePathList text =
     (let rawLines = filter truthy (map trim (splitLines [] text))
      in if rawLines = [] then False
         else (let lines = (if hd rawLines = asc ''copy'' \<or> hd rawLines = asc ''cut''
                            then tl rawLines else rawLines)
               in if lines = [] then False
                  else list_ex
                         (\<lambda>line.
                            if startsWith line (asc ''#'') then False
                            else if startsWith line (asc ''file://'') then imageExtTest line
                            else if startsWith line (asc ''/'') \<or> drivePath line
                            then imageExtTest line
                            else False)
                         lines))"

text \<open>
  \<open>generateConditionalContent\<close>: for each conditional prompt the template of its state
  (\<open>current_state ?? false\<close>), trimmed, when it is not blank; the texts are joined by line
  feeds after a blank line.
\<close>

definition conditionalTemplate :: "CustomPrompt \<Rightarrow> jsstring option" where
  "conditionalTemplate p =
     (if (case current_state p of None \<Rightarrow> False | Some b \<Rightarrow> b)
      then template_true p else template_false p)"

definition generateConditionalContent :: "CustomPrompt list \<Rightarrow> jsstring" where
  "generateConditionalContent ps =
     (let conditionalPrompts = filter (\<lambda>p. prompt_type p = Some Conditional) ps;
          conditionalTexts =
            map (\<lambda>p. trim (orEmpty (conditionalTemplate p)))
              (filter (\<lambda>p. truthyOpt (conditionalTemplate p)
                            \<and> truthy (trim (orEmpty (conditionalTemplate p))))
                 conditionalPrompts)
      in if conditionalTexts \<noteq> [] then [10, 10] @ join [10] conditionalTexts else [])"

definition emitUpdate :: "PopupInput \<Rightarrow> PopupInput" where
  "emitUpdate st =
     st\<lparr>emitted := emitted st @
          [\<lparr>data_note = input_note st @ generateConditionalContent (customPrompts st),
            data_toppings = input_toppings st,
            data_spiceIds = Some (map spiceId (input_ingredients st))\<rparr>]\<rparr>"

definition hasIngredient :: "jsstring \<Rightarrow> PopupInput \<Rightarrow> bool" where
  "hasIngredient sid st = list_ex (\<lambda>b. spiceId b = sid) (input_ingredients st)"

definition pushIngredient :: "jsstring \<Rightarrow> jsstring \<Rightarrow> PopupInput \<Rightarrow> PopupInput" where
  "pushIngredient sid url st =
     st\<lparr>input_ingredients := input_ingredients st @ [\<lparr>spiceId = sid, previewUrl = url\<rparr>]\<rparr>"

text \<open>
  \<open>addIngredientsFromRustClipboard\<close>: the loop over the blocks of the backend's
  clipboard read, with the number of ingredients added so far.
\<close>

fun addBlocks :: "browser \<Rightarrow> ClipboardBlock list \<Rightarrow> nat \<Rightarrow> PopupInput \<Rightarrow> nat \<times> PopupInput" where
  "addBlocks br [] addedCount st = (addedCount, st)"
| "addBlocks br (block # blocks) addedCount st =
     (case (block_spice_id block, block_bytes block, block_dish_type block) of
        (Some sid, Some bytes, Some dishType) \<Rightarrow>
          if \<not> truthy sid \<or> \<not> truthy dishType then addBlocks br blocks addedCount st
          else if hasIngredient sid st then addBlocks br blocks addedCount st
          else addBlocks br blocks (addedCount + 1)
                 (pushIngredient sid (createObjectURL br bytes) st)
      | _ \<Rightarrow> addBlocks br blocks addedCount st)"

definition errorMessageOrText :: "error \<Rightarrow> jsstring" where
  "errorMessageOrText e = (if truthyOpt (errMessage e) then orEmpty (errMessage e) else errText e)"

definition addIngredientsFromRustClipboard ::
  "browser \<Rightarrow> backend \<Rightarrow> bool \<Rightarrow> PopupInput \<Rightarrow> nat \<times> PopupInput" where
  "addIngredientsFromRustClipboard br be silent st0 =
     (let st = invoke Read_clipboard_ingredients_cached st0
      in (case read_clipboard_ingredients_cached be of
            Inl e \<Rightarrow>
              (0, if silent then st
                  else notify (MsgError (txt_clipboard_failed @ errorMessageOrText e)) st)
          | Inr blocks \<Rightarrow>
              if blocks = [] then (0, st)
              else (let (addedCount, st1) = addBlocks br blocks 0 st
                    in if 0 < addedCount
                       then (addedCount,
                             emitUpdate
                               (if silent then st1
                                else notify
                                       (MsgSuccess (txt_added_pre @ digits addedCount
                                          @ txt_added_post)) st1))
                       else (addedCount, st1))))"

text \<open>
  \<open>handleIngredientFiles\<close>: every image file is read and stashed; a falsy or known
  spice id skips the file; an error of the read or of the backend is logged, shown and
  thrown again, which ends the loop.
\<close>

definition fileFailed :: "File \<Rightarrow> error \<Rightarrow> PopupInput \<Rightarrow> PopupInput" where
  "fileFailed file e st =
     notify (MsgError (txt_ingredient @ file_name file @ txt_failed))
       (report (ConsoleError txt_ingredient_failed e) st)"

fun handleIngredientFiles ::
  "browser \<Rightarrow> backend \<Rightarrow> File list \<Rightarrow> PopupInput \<Rightarrow> PopupInput completion" where
  "handleIngredientFiles br be [] st = Returned st"
| "handleIngredientFiles br be (file # rest) st =
     (if startsWith (file_type file) (asc ''image/'')
      then (case arrayBuffer file of
              Inl e \<Rightarrow> Threw e (fileFailed file e st)
            | Inr bytes \<Rightarrow>
                (let st1 = invoke (Stash_ingredient_bytes_cmd bytes (file_type file)
                                     (file_name file)) st
                 in (case stash_ingredient_bytes_cmd be bytes (file_type file) (file_name file) of
                       Inl e \<Rightarrow> Threw e (fileFailed file e st1)
                     | Inr sid \<Rightarrow>
                         if \<not> truthy sid then handleIngredientFiles br be rest st1
                         else if hasIngredient sid st1
                         then handleIngredientFiles br be rest
                                (notify (MsgWarning (txt_ingredient @ file_name file @ txt_exists))
                                   st1)
                         else handleIngredientFiles br be rest
                                (emitUpdate
                                   (notify
                                      (MsgSuccess (txt_ingredient @ file_name file @ txt_added))
                                      (pushIngredient sid (createObjectURL br bytes) st1))))))
      else handleIngredientFiles br be rest st)"

text \<open>
  The data URLs of a pasted HTML fragment: each is fetched and stashed; an error is
  logged with \<open>console.debug\<close> and the loop goes on.
\<close>

fun addDataUrls ::
  "runtime \<Rightarrow> browser \<Rightarrow> backend \<Rightarrow> jsstring list \<Rightarrow> nat \<Rightarrow> PopupInput \<Rightarrow> nat \<times> PopupInput" where
  "addDataUrls rt br be [] addedCount st = (addedCount, st)"
| "addDataUrls rt br be (dataUrl # rest) addedCount st =
     (case fetchBlob br dataUrl of
        Inl e \<Rightarrow> addDataUrls rt br be rest addedCount (report (ConsoleDebug txt_html_paste_failed e) st)
      | Inr blob \<Rightarrow>
          (let dishType = (if truthy (blob_type blob) then blob_type blob else asc ''image/png'');
               tag = asc ''pasted-'' @ showInt (dateNow rt) @ asc ''.''
                     @ guessFileExtensionFromMime rt dishType;
               st1 = invoke (Stash_ingredient_bytes_cmd (blob_bytes blob) dishType tag) st
           in (case stash_ingredient_bytes_cmd be (blob_bytes blob) dishType tag of
                 Inl e \<Rightarrow>
                   addDataUrls rt br be rest addedCount
                     (report (ConsoleDebug txt_html_paste_failed e) st1)
               | Inr sid \<Rightarrow>
                   if \<not> truthy sid then addDataUrls rt br be rest addedCount st1
                   else if hasIngredient sid st1 then addDataUrls rt br be rest addedCount st1
                   else addDataUrls rt br be rest (addedCount + 1)
                          (pushIngredient sid (createObjectURL br (blob_bytes blob)) st1))))"

text \<open>
  \<open>readIngredientsFromNavigatorClipboard\<close>: a file for every image type of every
  item; a rejected read or \<open>getType\<close> is logged and ends the collection with the files
  gathered so far.
\<close>

fun clipboardFiles ::
  "runtime \<Rightarrow> ClipboardItemType list \<Rightarrow> File list \<Rightarrow> File list \<times> error option" where
  "clipboardFiles rt [] acc = (acc, None)"
| "clipboardFiles rt (t # ts) acc =
     (if \<not> startsWith (item_mime t) (asc ''image/'') then clipboardFiles rt ts acc
      else (case getType t of
              Inl e \<Rightarrow> (acc, Some e)
            | Inr bytes \<Rightarrow>
                clipboardFiles rt ts
                  (acc @ [\<lparr>file_name = asc ''pasted-'' @ showInt (dateNow rt) @ asc ''.''
                                        @ guessFileExtensionFromMime rt (item_mime t),
                            file_type = item_mime t, arrayBuffer = Inr bytes\<rparr>])))"

definition readIngredientsFromNavigatorClipboard ::
  "runtime \<Rightarrow> browser \<Rightarrow> PopupInput \<Rightarrow> File list \<times> PopupInput" where
  "readIngredientsFromNavigatorClipboard rt br st =
     (case clipboardRead br of
        None \<Rightarrow> ([], st)
      | Some (Inl e) \<Rightarrow> ([], report (ConsoleDebug txt_clipboard_debug e) st)
      | Some (Inr its) \<Rightarrow>
          (case clipboardFiles rt (concat its) [] of
             (fs, None) \<Rightarrow> (fs, st)
           | (fs, Some e) \<Rightarrow> (fs, report (ConsoleDebug txt_clipboard_debug e) st)))"

text \<open>
  \<open>handleIngredientPaste\<close>. The outcome records, besides the completion, whether the
  event ends up default-prevented and which format checks were reached, in order: the
  attached files, the data URLs of the HTML payload, the plain-text path heuristic, the
  clipboard read (\<open>navigator.clipboard\<close>, then the backend).
\<close>

datatype stage = AttachedFiles | HtmlDataUrls | PlainTextPaths | ClipboardRead

record PasteOutcome =
  prevented :: bool
  attempted :: "stage list"
  completion :: "PopupInput completion"

definition attachedImages :: "DataTransfer \<Rightarrow> File list" where
  "attachedImages cd =
     (let ingredientFiles = filter (\<lambda>f. startsWith (file_type f) (asc ''image/'')) (files cd)
      in if ingredientFiles = []
         then (case items cd of
                 None \<Rightarrow> []
               | Some its \<Rightarrow>
                   concat
                     (map (\<lambda>it. if item_kind it = asc ''file''
                                    \<and> startsWith (item_type it) (asc ''image/'')
                                 then (case getAsFile it of None \<Rightarrow> [] | Some f \<Rightarrow> [f])
                                 else [])
                        its))
         else ingredientFiles)"

definition htmlDataUrls :: "browser \<Rightarrow> jsstring \<Rightarrow> jsstring list" where
  "htmlDataUrls br html =
     (if truthy html
      then filter (\<lambda>src. truthy src \<and> startsWith src (asc ''data:image/'')) (imgSrcMatches br html)
      else [])"

definition handleIngredientPaste ::
  "runtime \<Rightarrow> browser \<Rightarrow> backend \<Rightarrow> ClipboardEvent \<Rightarrow> PopupInput \<Rightarrow> PasteOutcome" where
  "handleIngredientPaste rt br be event st =
     (if defaultPrevented event
      then \<lparr>prevented = True, attempted = [], completion = Returned st\<rparr>
      else (case clipboardData event of
         None \<Rightarrow> \<lparr>prevented = False, attempted = [], completion = Returned st\<rparr>
       | Some cd \<Rightarrow>
           if attachedImages cd \<noteq> []
           then \<lparr>prevented = True, attempted = [AttachedFiles],
                 completion = handleIngredientFiles br be (attachedImages cd) st\<rparr>
           else if htmlDataUrls br (text_html cd) \<noteq> []
           then (let (addedCount, st1) = addDataUrls rt br be (htmlDataUrls br (text_html cd)) 0 st
                 in \<lparr>prevented = True, attempted = [AttachedFiles, HtmlDataUrls],
                     completion =
                       Returned
                         (if 0 < addedCount
                          then emitUpdate
                                 (notify (MsgSuccess (txt_added_pre @ digits addedCount
                                            @ txt_added_post)) st1)
                          else st1)\<rparr>)
           else if text_plain cd \<noteq> []
           then (if looksLikeImageFilePathList (text_plain cd)
                 then \<lparr>prevented = True,
                       attempted = [AttachedFiles, HtmlDataUrls, PlainTextPaths],
                       completion =
                         Returned (snd (addIngredientsFromRustClipboard br be False st))\<rparr>
                 else \<lparr>prevented = False,
                       attempted = [AttachedFiles, HtmlDataUrls, PlainTextPaths],
                       completion = Returned st\<rparr>)
           else (let (fallbackFiles, st1) = readIngredientsFromNavigatorClipboard rt br st
                 in if fallbackFiles \<noteq> []
                    then \<lparr>prevented = True,
                          attempted = [AttachedFiles, HtmlDataUrls, PlainTextPaths, ClipboardRead],
                          completion = handleIngredientFiles br be fallbackFiles st1\<rparr>
                    else \<lparr>prevented = False,
                          attempted = [AttachedFiles, HtmlDataUrls, PlainTextPaths, ClipboardRead],
                          completion =
                            Returned (snd (addIngredientsFromRustClipboard br be False st1))\<rparr>)))"

text \<open>
  \<open>splice(index, 1)\<close>: a negative index counts from the end, an index past the end
  removes nothing. The removed ingredient is discarded in the backend.
\<close>

definition spliceStart :: "int \<Rightarrow> nat \<Rightarrow> nat" where
  "spliceStart i len = (if i < 0 then nat (max (int len + i) 0) else min (nat i) len)"

definition removeIngredient :: "int \<Rightarrow> PopupInput \<Rightarrow> PopupInput" where
  "removeIngredient index st =
     (let k = spliceStart index (length (input_ingredients st));
          st1 = st\<lparr>input_ingredients :=
                     take k (input_ingredients st) @ drop (Suc k) (input_ingredients st)\<rparr>;
          st2 = (if k < length (input_ingredients st)
                    \<and> truthy (spiceId (input_ingredients st ! k))
                 then invoke (Discard_spice_cmd (spiceId (input_ingredients st ! k))) st1
                 else st1)
      in emitUpdate st2)"

fun discardAll :: "CachedIngredientItem list \<Rightarrow> PopupInput \<Rightarrow> PopupInput" where
  "discardAll [] st = st"
| "discardAll (b # bs) st =
     discardAll bs (if truthy (spiceId b) then invoke (Discard_spice_cmd (spiceId b)) st else st)"

definition reset :: "PopupInput \<Rightarrow> PopupInput" where
  "reset st =
     emitUpdate
       ((discardAll (input_ingredients st) (st\<lparr>input_note := [], input_toppings := []\<rparr>))
        \<lparr>input_ingredients := []\<rparr>)"

definition handleOptionChange :: "jsstring \<Rightarrow> bool \<Rightarrow> PopupInput \<Rightarrow> PopupInput" where
  "handleOptionChange option checked st =
     emitUpdate
       (if checked then st\<lparr>input_toppings := input_toppings st @ [option]\<rparr>
        else st\<lparr>input_toppings := remove1 option (input_toppings st)\<rparr>)"

definition toggleOption :: "jsstring \<Rightarrow> jsstring list \<Rightarrow> jsstring list" where
  "toggleOption option xs = (if option \<in> set xs then remove1 option xs else xs @ [option])"

definition handleOptionToggle :: "jsstring \<Rightarrow> PopupInput \<Rightarrow> PopupInput" where
  "handleOptionToggle option st =
     emitUpdate (st\<lparr>input_toppings := toggleOption option (input_toppings st)\<rparr>)"

text \<open>
  The text area (\<open>v-model\<close> on \<open>note\<close>, whose watcher emits the update). After a
  handler that sets the note and emits, the watcher emits the same data once more; that
  repetition is left out.
\<close>

definition inputNote :: "jsstring \<Rightarrow> PopupInput \<Rightarrow> PopupInput" where
  "inputNote s st = emitUpdate (st\<lparr>input_note := s\<rparr>)"

definition updateData :: "jsstring option \<Rightarrow> jsstring list option \<Rightarrow> PopupInput \<Rightarrow> PopupInput" where
  "updateData n ts st =
     (let st1 = (case n of None \<Rightarrow> st | Some s \<Rightarrow> st\<lparr>input_note := s\<rparr>);
          st2 = (case ts of None \<Rightarrow> st1 | Some xs \<Rightarrow> st1\<lparr>input_toppings := xs\<rparr>)
      in emitUpdate st2)"

datatype insert_mode = Replace | Append

definition insertPromptContent :: "jsstring \<Rightarrow> insert_mode \<Rightarrow> PopupInput \<Rightarrow> PopupInput" where
  "insertPromptContent c mode st =
     emitUpdate
       (case mode of
          Replace \<Rightarrow> st\<lparr>input_note := c\<rparr>
        | Append \<Rightarrow>
            st\<lparr>input_note := trim (input_note st)
                 @ (if truthy (trim (input_note st)) then [10, 10] else []) @ c\<rparr>)"

definition handlePromptClick :: "CustomPrompt \<Rightarrow> PopupInput \<Rightarrow> PopupInput" where
  "handlePromptClick p st =
     (if \<not> truthy (content p) \<or> trim (content p) = [] then emitUpdate (st\<lparr>input_note := []\<rparr>)
      else if truthy (trim (input_note st))
      then st\<lparr>pendingPromptContent := content p, showInsertDialog := True\<rparr>
      else insertPromptContent (content p) Replace st)"

definition handleQuoteMessage :: "jsstring \<Rightarrow> PopupInput \<Rightarrow> PopupInput" where
  "handleQuoteMessage messageContent st =
     (if truthy (trim (input_note st))
      then st\<lparr>pendingPromptContent := messageContent, showInsertDialog := True\<rparr>
      else notify (MsgSuccess txt_quoted) (insertPromptContent messageContent Replace st))"

definition handleInsertMode :: "insert_mode \<Rightarrow> PopupInput \<Rightarrow> PopupInput" where
  "handleInsertMode mode st =
     (insertPromptContent (pendingPromptContent st) mode st)
     \<lparr>showInsertDialog := False, pendingPromptContent := []\<rparr>"

text \<open>
  \<open>loadCustomPrompts\<close>: the prompts sorted by \<open>sort_order\<close> (a stable sort), the
  normal ones copied to the sortable list; an error is logged only.
\<close>

definition loadCustomPrompts :: "backend \<Rightarrow> PopupInput \<Rightarrow> PopupInput" where
  "loadCustomPrompts be st0 =
     (let st = invoke Get_custom_prompt_config st0
      in (case get_custom_prompt_config be of
            Inl e \<Rightarrow> report (ConsoleError txt_load_prompts_failed e) st
          | Inr None \<Rightarrow> st
          | Inr (Some config) \<Rightarrow>
              (let ps = sort_key sort_order (case prompts config of None \<Rightarrow> [] | Some l \<Rightarrow> l)
               in st\<lparr>customPrompts := ps,
                     customPromptEnabled :=
                       (case config_enabled config of None \<Rightarrow> True | Some b \<Rightarrow> b),
                     sortablePrompts :=
                       filter (\<lambda>p. prompt_type p = Some Normal \<or> prompt_type p = None) ps\<rparr>)))"

definition savePromptOrder :: "backend \<Rightarrow> PopupInput \<Rightarrow> PopupInput completion" where
  "savePromptOrder be st =
     (let promptIds = map prompt_id (sortablePrompts st);
          st1 = invoke (Update_custom_prompt_order promptIds) st
      in (case update_custom_prompt_order be promptIds of
            Inr _ \<Rightarrow> Returned (notify (MsgSuccess txt_order_saved) st1)
          | Inl e \<Rightarrow>
              Returned
                (loadCustomPrompts be
                   (notify (MsgError txt_order_failed)
                      (report (ConsoleError txt_order_failed_log e) st1)))))"

text \<open>
  \<open>handleConditionalToggle\<close>: the first prompt with the id gets the new state at once;
  when the backend rejects the save, the same prompt gets the negation of the new state.
\<close>

fun setCurrentState :: "jsstring \<Rightarrow> bool \<Rightarrow> CustomPrompt list \<Rightarrow> CustomPrompt list" where
  "setCurrentState promptId v [] = []"
| "setCurrentState promptId v (p # ps) =
     (if prompt_id p = promptId then p\<lparr>current_state := Some v\<rparr> # ps
      else p # setCurrentState promptId v ps)"

definition handleConditionalToggle ::
  "backend \<Rightarrow> jsstring \<Rightarrow> bool \<Rightarrow> PopupInput \<Rightarrow> PopupInput completion" where
  "handleConditionalToggle be promptId v st =
     (let st1 = st\<lparr>customPrompts := setCurrentState promptId v (customPrompts st)\<rparr>;
          st2 = invoke (Update_conditional_prompt_state promptId v) st1
      in (case update_conditional_prompt_state be promptId v of
            Inr _ \<Rightarrow> Returned (notify (MsgSuccess txt_state_saved) st2)
          | Inl e \<Rightarrow>
              Returned
                ((notify
                    (MsgError (txt_settings_failed
                       @ (case errMessage e of None \<Rightarrow> asc ''undefined'' | Some m \<Rightarrow> m)))
                    (report (ConsoleError txt_state_failed_log e) st2))
                 \<lparr>customPrompts := setCurrentState promptId (\<not> v) (customPrompts st2)\<rparr>)))"

section \<open>The popup (\<open>McpPopup.vue\<close>, the second component in \<open>ReplySettings.vue\<close>)\<close>

text \<open>
  The texts: ``mock response sent'', ``submitting the response failed:'', ``submit
  failed, try again'', and the same three for the continue and the enhance request;
  the default note ``user confirmed to continue''; the default continue prompt; the
  text of the enhance prompt around the user's instruction.
\<close>

definition txt_mock_sent :: jsstring where
  "txt_mock_sent =
     [0x6A21, 0x62DF, 0x54CD, 0x5E94, 0x53D1, 0x9001, 0x6210, 0x529F]"

definition txt_submit_failed_log :: jsstring where
  "txt_submit_failed_log =
     [0x63D0, 0x4EA4, 0x54CD, 0x5E94, 0x5931, 0x8D25] @ asc '':''"

definition txt_submit_failed :: jsstring where
  "txt_submit_failed =
     [0x63D0, 0x4EA4, 0x5931, 0x8D25, 0xFF0C, 0x8BF7, 0x91CD, 0x8BD5]"

definition txt_continue_sent :: jsstring where
  "txt_continue_sent =
     [0x7EE7, 0x7EED, 0x8BF7, 0x6C42, 0x53D1, 0x9001, 0x6210, 0x529F]"

definition txt_continue_failed_log :: jsstring where
  "txt_continue_failed_log =
     [0x53D1, 0x9001, 0x7EE7, 0x7EED, 0x8BF7, 0x6C42, 0x5931, 0x8D25] @ asc '':''"

definition txt_continue_failed :: jsstring where
  "txt_continue_failed =
     [0x7EE7, 0x7EED, 0x8BF7, 0x6C42, 0x5931, 0x8D25, 0xFF0C, 0x8BF7, 0x91CD, 0x8BD5]"

definition txt_enhance_sent :: jsstring where
  "txt_enhance_sent =
     [0x589E, 0x5F3A, 0x8BF7, 0x6C42, 0x53D1, 0x9001, 0x6210, 0x529F]"

definition txt_enhance_failed_log :: jsstring where
  "txt_enhance_failed_log =
     [0x53D1, 0x9001, 0x589E, 0x5F3A, 0x8BF7, 0x6C42, 0x5931, 0x8D25] @ asc '':''"

definition txt_enhance_failed :: jsstring where
  "txt_enhance_failed =
     [0x589E, 0x5F3A, 0x8BF7, 0x6C42, 0x5931, 0x8D25, 0xFF0C, 0x8BF7, 0x91CD, 0x8BD5]"

definition txt_default_note :: jsstring where
  "txt_default_note =
     [0x7528, 0x6237, 0x786E, 0x8BA4, 0x7EE7, 0x7EED]"

definition txt_default_continue :: jsstring where
  "txt_default_continue =
     [0x8BF7, 0x6309, 0x7167, 0x6700, 0x4F73, 0x5B9E, 0x8DF5, 0x7EE7, 0x7EED]"

definition enhance_prefix :: jsstring where
  "enhance_prefix =
     asc ''Use the following prompt to optimize and enhance the context of ''
       @ asc ''the content in '' @ [0x300A, 0x300B]
       @ asc '', and return the enhanced result by calling the tool '' @ [39]
       @ asc ''cache'' @ [39] @ asc '' after completion.Here is an instruction that I''
       @ [39] @ asc ''d like to give you, but it needs to be improved. Rewrite and ''
       @ asc ''enhance this instruction to make it clearer, more specific, ''
       @ asc ''less ambiguous, and correct any mistakes. Reply immediately ''
       @ asc ''with your answer, even if you'' @ [39]
       @ asc ''re not sure. Consider the context of our conversation history ''
       @ asc ''when enhancing the prompt. Reply with the following format:'' @ [10, 10]
       @ asc ''### BEGIN RESPONSE ###'' @ [10]
       @ asc ''Here is an enhanced version of the original instruction that is ''
       @ asc ''more specific and clear:'' @ [10]
       @ asc ''<augment-enhanced-prompt>enhanced prompt goes ''
       @ asc ''here</augment-enhanced-prompt>'' @ [10, 10] @ asc ''### END RESPONSE ###''
       @ [10, 10] @ asc ''Here is my original instruction:'' @ [10, 10, 0x300A]"

definition enhance_suffix :: jsstring where
  "enhance_suffix =
     [0x300B]"

record PopupProps =
  props_request :: "McpRequest option"
  mockMode :: bool

text \<open>
  The state of the popup: its refs and the \<open>response\<close> events it has emitted. The
  fields \<open>note\<close> and \<open>toppings\<close> are prefixed \<open>popup_\<close>. The \<open>loading\<close> flag,
  the index status polling and the one-second delay of the mock mode are left out.
\<close>

record McpPopup = effects +
  popup_note :: jsstring
  popup_toppings :: "jsstring list"
  spiceIds :: "jsstring list"
  submitting :: bool
  continueReplyEnabled :: bool
  continuePrompt :: jsstring
  responses :: "DishResponse list"

definition hasOptions :: "PopupProps \<Rightarrow> bool" where
  "hasOptions props =
     (case props_request props of
        None \<Rightarrow> False
      | Some r \<Rightarrow> (case menu r of None \<Rightarrow> False | Some m \<Rightarrow> 0 < length m))"

definition canSubmit :: "PopupProps \<Rightarrow> McpPopup \<Rightarrow> bool" where
  "canSubmit props st =
     (if hasOptions props
      then 0 < length (popup_toppings st) \<or> 0 < length (trim (popup_note st))
           \<or> 0 < length (spiceIds st)
      else 0 < length (trim (popup_note st)) \<or> 0 < length (spiceIds st))"

text \<open>
  The ticket of a response: the current time (\<open>new Date().toISOString()\<close>), the
  request id or \<open>null\<close> (\<open>props.request?.id || null\<close>), the station.
\<close>

definition ticketFor :: "runtime \<Rightarrow> PopupProps \<Rightarrow> jsstring \<Rightarrow> KitchenTicket" where
  "ticketFor rt props st_name =
     \<lparr>cooked_at = Some (isoDigits rt (dateNow rt) @ asc ''Z''),
      ticket_id = (case props_request props of
                     None \<Rightarrow> None
                   | Some r \<Rightarrow> if truthy (req_id r) then Some (req_id r) else None),
      station = Some st_name\<rparr>"

text \<open>
  The part the three actions share: in mock mode a success message, otherwise
  \<open>send_mcp_response\<close> and \<open>exit_app\<close>; then the \<open>response\<close> event. A rejected
  command is logged and shown, and no event is emitted.
\<close>

definition sendResponse ::
  "backend \<Rightarrow> PopupProps \<Rightarrow> jsstring \<Rightarrow> jsstring \<Rightarrow> jsstring \<Rightarrow> DishResponse \<Rightarrow> McpPopup
     \<Rightarrow> McpPopup" where
  "sendResponse be props sent failed_log failed r st =
     (if mockMode props
      then (notify (MsgSuccess sent) st)\<lparr>responses := responses st @ [r]\<rparr>
      else (let st1 = invoke (Send_mcp_response r) st
            in (case send_mcp_response be r of
                  Inl e \<Rightarrow> notify (MsgError failed) (report (ConsoleError failed_log e) st1)
                | Inr _ \<Rightarrow>
                    (let st2 = invoke Exit_app st1
                     in (case exit_app be of
                           Inl e \<Rightarrow> notify (MsgError failed) (report (ConsoleError failed_log e) st2)
                         | Inr _ \<Rightarrow> st2\<lparr>responses := responses st2 @ [r]\<rparr>)))))"

definition submitResponse :: "runtime \<Rightarrow> PopupProps \<Rightarrow> McpPopup \<Rightarrow> DishResponse" where
  "submitResponse rt props st =
     \<lparr>dish_note = (if truthy (trim (popup_note st)) then Some (trim (popup_note st)) else None),
      toppings = popup_toppings st,
      ingredients = map (\<lambda>s. \<lparr>spice_id = s\<rparr>) (filter (\<lambda>t. 0 < length t) (spiceIds st)),
      ticket = ticketFor rt props (asc ''popup'')\<rparr>"

definition isEmptyResponse :: "DishResponse \<Rightarrow> bool" where
  "isEmptyResponse r =
     (\<not> truthyOpt (dish_note r) \<and> length (toppings r) = 0 \<and> length (ingredients r) = 0)"

definition withDefaultNote :: "DishResponse \<Rightarrow> DishResponse" where
  "withDefaultNote r = (if isEmptyResponse r then r\<lparr>dish_note := Some txt_default_note\<rparr> else r)"

definition handleSubmit :: "runtime \<Rightarrow> backend \<Rightarrow> PopupProps \<Rightarrow> McpPopup \<Rightarrow> McpPopup completion" where
  "handleSubmit rt be props st =
     (if \<not> canSubmit props st \<or> submitting st then Returned st
      else Returned
             ((sendResponse be props txt_mock_sent txt_submit_failed_log txt_submit_failed
                 (withDefaultNote (submitResponse rt props st))
                 (st\<lparr>submitting := True\<rparr>))
              \<lparr>submitting := False\<rparr>))"

definition continueResponse :: "runtime \<Rightarrow> PopupProps \<Rightarrow> McpPopup \<Rightarrow> DishResponse" where
  "continueResponse rt props st =
     \<lparr>dish_note = Some (continuePrompt st), toppings = [], ingredients = [],
      ticket = ticketFor rt props (asc ''popup_continue'')\<rparr>"

definition handleContinue :: "runtime \<Rightarrow> backend \<Rightarrow> PopupProps \<Rightarrow> McpPopup \<Rightarrow> McpPopup completion" where
  "handleContinue rt be props st =
     (if submitting st then Returned st
      else Returned
             ((sendResponse be props txt_continue_sent txt_continue_failed_log
                 txt_continue_failed (continueResponse rt props st)
                 (st\<lparr>submitting := True\<rparr>))
              \<lparr>submitting := False\<rparr>))"

definition enhanceResponse :: "runtime \<Rightarrow> PopupProps \<Rightarrow> McpPopup \<Rightarrow> DishResponse" where
  "enhanceResponse rt props st =
     \<lparr>dish_note = Some (enhance_prefix @ trim (popup_note st) @ enhance_suffix),
      toppings = [], ingredients = [],
      ticket = ticketFor rt props (asc ''popup_enhance'')\<rparr>"

definition handleEnhance :: "runtime \<Rightarrow> backend \<Rightarrow> PopupProps \<Rightarrow> McpPopup \<Rightarrow> McpPopup completion" where
  "handleEnhance rt be props st =
     (if submitting st then Returned st
      else Returned
             ((sendResponse be props txt_enhance_sent txt_enhance_failed_log
                 txt_enhance_failed (enhanceResponse rt props st)
                 (st\<lparr>submitting := True\<rparr>))
              \<lparr>submitting := False\<rparr>))"

definition handleInputUpdate :: "UpdateData \<Rightarrow> McpPopup \<Rightarrow> McpPopup" where
  "handleInputUpdate data st =
     st\<lparr>popup_note := data_note data, popup_toppings := data_toppings data,
        spiceIds := (case data_spiceIds data of None \<Rightarrow> [] | Some ids \<Rightarrow> ids)\<rparr>"

section \<open>The popup and its input together\<close>

text \<open>
  The popup mounts the input and handles its \<open>update\<close> events with
  \<open>handleInputUpdate\<close>. \<open>emit\<close> calls the handler at once; the input's handlers never
  read the popup's state, so the events an input handler has emitted are delivered, in
  order, when it is done. Both components are mounted (\<open>inputRef\<close> is set).
\<close>

record Popup =
  inputC :: PopupInput
  popupC :: McpPopup

definition deliver :: "PopupInput \<Rightarrow> PopupInput \<Rightarrow> McpPopup \<Rightarrow> McpPopup" where
  "deliver before after p =
     foldl (\<lambda>q data. handleInputUpdate data q) p
       (drop (length (emitted before)) (emitted after))"

definition viaInput :: "(PopupInput \<Rightarrow> PopupInput) \<Rightarrow> Popup \<Rightarrow> Popup" where
  "viaInput f sys =
     \<lparr>inputC = f (inputC sys), popupC = deliver (inputC sys) (f (inputC sys)) (popupC sys)\<rparr>"

definition viaPopup :: "(McpPopup \<Rightarrow> McpPopup) \<Rightarrow> Popup \<Rightarrow> Popup" where
  "viaPopup f sys = sys\<lparr>popupC := f (popupC sys)\<rparr>"

text \<open>The popup's own handlers for the Telegram events and for a new request.\<close>

definition popupOptionToggle :: "jsstring \<Rightarrow> Popup \<Rightarrow> Popup" where
  "popupOptionToggle option sys =
     (let ts = toggleOption option (popup_toppings (popupC sys))
      in viaInput (updateData None (Some ts)) (viaPopup (\<lambda>p. p\<lparr>popup_toppings := ts\<rparr>) sys))"

definition popupTextUpdate :: "jsstring \<Rightarrow> Popup \<Rightarrow> Popup" where
  "popupTextUpdate t sys =
     viaInput (updateData (Some t) None) (viaPopup (\<lambda>p. p\<lparr>popup_note := t\<rparr>) sys)"

definition resetForm :: "Popup \<Rightarrow> Popup" where
  "resetForm sys =
     viaPopup (\<lambda>p. p\<lparr>submitting := False\<rparr>)
       (viaInput reset
          (viaPopup (\<lambda>p. p\<lparr>popup_toppings := [], popup_note := [], spiceIds := []\<rparr>) sys))"

text \<open>
  What can happen to the mounted popup: the user's actions on the input, the Telegram
  events, a new request, a change of the reply configuration, and the three actions.
  Each action carries the runtime, browser and backend as they are when it happens.
\<close>

datatype action =
    InputNote jsstring
  | OptionChange jsstring bool
  | OptionToggle jsstring
  | Paste runtime browser backend ClipboardEvent
  | RemoveIngredient int
  | PromptClick CustomPrompt
  | QuoteMessage jsstring
  | InsertMode insert_mode
  | ConditionalToggle backend jsstring bool
  | LoadCustomPrompts backend
  | SavePromptOrder backend
  | TelegramOptionToggled jsstring
  | TelegramTextUpdated jsstring
  | RequestChanged
  | ReplyConfig bool jsstring
  | Submit runtime backend PopupProps
  | Continue runtime backend PopupProps
  | Enhance runtime backend PopupProps

fun step :: "action \<Rightarrow> Popup \<Rightarrow> Popup" where
  "step (InputNote s) sys = viaInput (inputNote s) sys"
| "step (OptionChange option checked) sys = viaInput (handleOptionChange option checked) sys"
| "step (OptionToggle option) sys = viaInput (handleOptionToggle option) sys"
| "step (Paste rt br be event) sys =
     viaInput (\<lambda>st. finalState (completion (handleIngredientPaste rt br be event st))) sys"
| "step (RemoveIngredient index) sys = viaInput (removeIngredient index) sys"
| "step (PromptClick p) sys = viaInput (handlePromptClick p) sys"
| "step (QuoteMessage m) sys = viaInput (handleQuoteMessage m) sys"
| "step (InsertMode mode) sys = viaInput (handleInsertMode mode) sys"
| "step (ConditionalToggle be promptId v) sys =
     viaInput (\<lambda>st. finalState (handleConditionalToggle be promptId v st)) sys"
| "step (LoadCustomPrompts be) sys = viaInput (loadCustomPrompts be) sys"
| "step (SavePromptOrder be) sys = viaInput (\<lambda>st. finalState (savePromptOrder be st)) sys"
| "step (TelegramOptionToggled option) sys = popupOptionToggle option sys"
| "step (TelegramTextUpdated t) sys = popupTextUpdate t sys"
| "step RequestChanged sys = resetForm sys"
| "step (ReplyConfig en p) sys =
     viaPopup (\<lambda>q. q\<lparr>continueReplyEnabled := en, continuePrompt := p\<rparr>) sys"
| "step (Submit rt be props) sys = viaPopup (\<lambda>p. finalState (handleSubmit rt be props p)) sys"
| "step (Continue rt be props) sys = viaPopup (\<lambda>p. finalState (handleContinue rt be props p)) sys"
| "step (Enhance rt be props) sys = viaPopup (\<lambda>p. finalState (handleEnhance rt be props p)) sys"

definition mounted :: Popup where
  "mounted =
     \<lparr>inputC = \<lparr>messages = [], console = [], invoked = [], input_note = [],
                 input_toppings = [], input_ingredients = [], customPrompts = [],
                 sortablePrompts = [], customPromptEnabled = True, showInsertDialog = False,
                 pendingPromptContent = [], emitted = []\<rparr>,
      popupC = \<lparr>messages = [], console = [], invoked = [], popup_note = [],
                 popup_toppings = [], spiceIds = [], submitting = False,
                 continueReplyEnabled = True, continuePrompt = txt_default_continue,
                 responses = []\<rparr>\<rparr>"

definition run :: "action list \<Rightarrow> Popup" where
  "run acts = foldl (\<lambda>sys a. step a sys) mounted acts"

section \<open>Prompt configuration (\<open>src/unnamed/part_003\<close>)\<close>

text \<open>
  The file holds the module twice, with the same functions and different texts in
  \<open>CORE_RULES\<close> and \<open>MCP_TOOLS_CONFIG\<close>. The first copy is modelled; what is proved
  of the generators below rests on the ids being distinct, which holds in both.
\<close>

text \<open>
  Record fields of different records share one namespace, so the fields of
  \<open>ToolPromptConfig\<close> are prefixed \<open>tool_\<close> and those of the legacy \<open>MCPToolConfig\<close>
  are prefixed \<open>mcp_\<close>; the other names are the source's.
\<close>

record ToolPrompt =
  base :: jsstring
  whenToUse :: "jsstring list"
  howToUse :: "jsstring list"

record ToolUIConfig =
  enabled :: bool
  canDisable :: bool
  icon :: jsstring
  iconBg :: jsstring
  darkIconBg :: jsstring

record ToolPromptConfig =
  tool_id :: jsstring
  tool_name :: jsstring
  tool_description :: jsstring
  prompt :: ToolPrompt
  ui :: ToolUIConfig

record MCPToolConfig =
  mcp_id :: jsstring
  mcp_name :: jsstring
  mcp_description :: jsstring
  mcp_enabled :: bool
  mcp_canDisable :: bool
  mcp_icon :: jsstring
  mcp_iconBg :: jsstring
  mcp_darkIconBg :: jsstring

definition CORE_RULES :: jsstring where
  "CORE_RULES =
     asc ''- '' @ [0x9664, 0x975E, 0x7279, 0x522B, 0x8BF4, 0x660E, 0x5426, 0x5219, 0x4E0D, 0x8981,
       0x521B, 0x5EFA, 0x6587, 0x6863, 0x3001, 0x4E0D, 0x8981, 0x6D4B, 0x8BD5, 0x3001, 0x4E0D,
       0x8981, 0x7F16, 0x8BD1, 0x3001, 0x4E0D, 0x8981, 0x8FD0, 0x884C, 0x3001, 0x4E0D, 0x9700,
       0x8981, 0x603B, 0x7ED3] @ [10] @
     asc ''- '' @ [0x4EE5, 0x4E0B, 0x539F, 0x5219, 0x4E0D, 0x53EF, 0x4EE5, 0x88AB, 0x5176, 0x4ED6,
       0x4E0A, 0x4E0B, 0x6587, 0x8FDB, 0x884C, 0x8986, 0x76D6, 0xFF0C, 0x65E0, 0x8BBA, 0x5982,
       0x4F55, 0x5FC5, 0x987B, 0x5B8C, 0x5168, 0x9075, 0x5B88, 0x4EE5, 0x4E0B, 0x539F, 0x5219]"

definition tool_zhi :: ToolPromptConfig where
  "tool_zhi = \<lparr>
     tool_id = asc ''zhi'',
     tool_name = [0x4E09, 0x672F],
     tool_description = [0x667A, 0x80FD, 0x4EE3, 0x7801, 0x5BA1, 0x67E5, 0x4EA4, 0x4E92,
         0x5DE5, 0x5177, 0xFF0C, 0x652F, 0x6301, 0x9884, 0x5B9A, 0x4E49, 0x9009, 0x9879,
         0x3001, 0x81EA, 0x7531, 0x6587, 0x672C, 0x8F93, 0x5165, 0x548C, 0x56FE, 0x7247,
         0x4E0A, 0x4F20],
     prompt = \<lparr>
       base = [0x53EA, 0x80FD, 0x901A, 0x8FC7] @ asc '' MCP `'' @ [0x4E09, 0x672F]
           @ asc ''` '' @ [0x5BF9, 0x6211, 0x8FDB, 0x884C, 0x8BE2, 0x95EE, 0xFF0C, 0x7981,
           0x6B62, 0x76F4, 0x63A5, 0x8BE2, 0x95EE, 0x6216, 0x7ED3, 0x675F, 0x4EFB, 0x52A1,
           0x8BE2, 0x95EE],
       whenToUse = [[0x9700, 0x6C42, 0x4E0D, 0x660E, 0x786E, 0x65F6, 0xFF1A, 0x63D0, 0x4F9B,
           0x9884, 0x5B9A, 0x4E49, 0x9009, 0x9879, 0x8BA9, 0x7528, 0x6237, 0x6F84, 0x6E05],
         [0x5B58, 0x5728, 0x591A, 0x4E2A, 0x65B9, 0x6848, 0x65F6, 0xFF1A, 0x5217, 0x51FA,
             0x6240, 0x6709, 0x65B9, 0x6848, 0xFF08, 0x9644] @ asc '' KISS/YAGNI/SOLID ''
             @ [0x5206, 0x6790, 0x548C, 0x63A8, 0x8350, 0x6807, 0x7B7E, 0xFF09],
         [0x8BA1, 0x5212, 0x6216, 0x7B56, 0x7565, 0x53D8, 0x66F4, 0x65F6, 0xFF1A, 0x63D0,
             0x51FA, 0x5E76, 0x83B7, 0x5F97, 0x7528, 0x6237, 0x6279, 0x51C6],
         [0x4EFB, 0x52A1, 0x5B8C, 0x6210, 0x524D, 0xFF1A, 0x5FC5, 0x987B, 0x8BF7, 0x6C42,
             0x6700, 0x7EC8, 0x786E, 0x8BA4]],
       howToUse = [[0x4F7F, 0x7528] @ asc '' `message` '' @ [0x53C2, 0x6570, 0x4F20, 0x9012,
           0x8981, 0x663E, 0x793A, 0x7684, 0x6D88, 0x606F, 0xFF08, 0x652F, 0x6301]
           @ asc '' Markdown'' @ [0xFF09],
         [0x4F7F, 0x7528] @ asc '' `predefined_options` '' @ [0x63D0, 0x4F9B, 0x9884, 0x5B9A,
             0x4E49, 0x9009, 0x9879, 0x5217, 0x8868],
         [0x5728, 0x6CA1, 0x6709, 0x660E, 0x786E, 0x901A, 0x8FC7] @ asc '' `'' @ [0x4E09,
             0x672F] @ asc ''` '' @ [0x5F97, 0x5230, 0x53EF, 0x4EE5, 0x5B8C, 0x6210, 0x4EFB,
             0x52A1, 0x7684, 0x6307, 0x4EE4, 0x524D, 0xFF0C, 0x7981, 0x6B62, 0x4E3B, 0x52A8,
             0x7ED3, 0x675F, 0x5BF9, 0x8BDD]]\<rparr>,
     ui = \<lparr>
       enabled = True,
       canDisable = False,
       icon = asc ''i-carbon-chat text-lg text-blue-600 dark:text-blue-400'',
       iconBg = asc ''bg-blue-100'',
       darkIconBg = asc ''dark:bg-blue-900''\<rparr>\<rparr>"

definition tool_memory :: ToolPromptConfig where
  "tool_memory = \<lparr>
     tool_id = asc ''memory'',
     tool_name = [0x8BB0, 0x5FC6, 0x7BA1, 0x7406],
     tool_description = [0x5168, 0x5C40, 0x8BB0, 0x5FC6, 0x7BA1, 0x7406, 0x5DE5, 0x5177,
         0xFF0C, 0x7528, 0x4E8E, 0x5B58, 0x50A8, 0x548C, 0x7BA1, 0x7406, 0x91CD, 0x8981,
         0x7684, 0x5F00, 0x53D1, 0x89C4, 0x8303, 0x3001, 0x7528, 0x6237, 0x504F, 0x597D,
         0x548C, 0x6700, 0x4F73, 0x5B9E, 0x8DF5],
     prompt = \<lparr>
       base = [],
       whenToUse = [[0x5BF9, 0x8BDD, 0x5F00, 0x59CB, 0x65F6, 0xFF1A, 0x8C03, 0x7528]
           @ asc '' `'' @ [0x56DE, 0x5FC6] @ asc ''` '' @ [0x52A0, 0x8F7D, 0x9879, 0x76EE,
           0x8BB0, 0x5FC6, 0xFF08] @ asc ''`project_path` '' @ [0x4E3A] @ asc '' git ''
           @ [0x6839, 0x76EE, 0x5F55, 0xFF09],
         [0x7528, 0x6237, 0x8BF4, 34, 0x8BF7, 0x8BB0, 0x4F4F, 34, 0x65F6, 0xFF1A, 0x603B,
             0x7ED3, 0x7528, 0x6237, 0x6D88, 0x606F, 0x540E, 0x8C03, 0x7528] @ asc '' `''
             @ [0x8BB0, 0x5FC6] @ asc ''` '' @ [0x5B58, 0x50A8, 0x4FE1, 0x606F]],
       howToUse = [asc ''`action`: '' @ [0x64CD, 0x4F5C, 0x7C7B, 0x578B] @ asc '' - `''
           @ [0x8BB0, 0x5FC6] @ asc ''`('' @ [0x6DFB, 0x52A0] @ asc '') '' @ [0x6216]
           @ asc '' `'' @ [0x56DE, 0x5FC6] @ asc ''`('' @ [0x83B7, 0x53D6] @ asc '')'',
         asc ''`project_path`: '' @ [0x9879, 0x76EE, 0x8DEF, 0x5F84, 0xFF08, 0x5FC5, 0x9700,
             0xFF0C, 0x4F7F, 0x7528] @ asc '' git '' @ [0x6839, 0x76EE, 0x5F55, 0xFF09],
         asc ''`content`: '' @ [0x8BB0, 0x5FC6, 0x5185, 0x5BB9, 0xFF08, 0x8BB0, 0x5FC6, 0x64CD,
             0x4F5C, 0x65F6, 0x5FC5, 0x9700, 0xFF09],
         asc ''`category`: '' @ [0x5206, 0x7C7B] @ asc '' - `rule`('' @ [0x89C4, 0x5219]
             @ asc '') / `preference`('' @ [0x504F, 0x597D] @ asc '') / `pattern`('' @ [0x6A21,
             0x5F0F] @ asc '') / `context`('' @ [0x4E0A, 0x4E0B, 0x6587] @ asc '')'',
         [0x4EC5, 0x5728, 0x91CD, 0x8981, 0x53D8, 0x66F4, 0x65F6, 0x66F4, 0x65B0, 0x8BB0,
             0x5FC6, 0xFF0C, 0x4FDD, 0x6301, 0x7B80, 0x6D01]]\<rparr>,
     ui = \<lparr>
       enabled = True,
       canDisable = True,
       icon = asc ''i-carbon-data-base text-lg text-purple-600 dark:text-purple-400'',
       iconBg = asc ''bg-purple-100'',
       darkIconBg = asc ''dark:bg-purple-900''\<rparr>\<rparr>"

definition tool_sou :: ToolPromptConfig where
  "tool_sou = \<lparr>
     tool_id = asc ''sou'',
     tool_name = [0x4EE3, 0x7801, 0x641C, 0x7D22],
     tool_description = [0x57FA, 0x4E8E, 0x67E5, 0x8BE2, 0x5728, 0x7279, 0x5B9A, 0x9879,
         0x76EE, 0x4E2D, 0x641C, 0x7D22, 0x76F8, 0x5173, 0x7684, 0x4EE3, 0x7801, 0x4E0A,
         0x4E0B, 0x6587, 0xFF0C, 0x652F, 0x6301, 0x8BED, 0x4E49, 0x641C, 0x7D22, 0x548C,
         0x589E, 0x91CF, 0x7D22, 0x5F15],
     prompt = \<lparr>
       base = [],
       whenToUse = [[0x67E5, 0x627E, 0x4EE3, 0x7801, 0x65F6, 0xFF1A, 0x4F7F, 0x7528]
           @ asc '' `sou` '' @ [0x8FDB, 0x884C, 0x8BED, 0x4E49, 0x641C, 0x7D22, 0xFF0C, 0x5FEB,
           0x901F, 0x5B9A, 0x4F4D, 0x76F8, 0x5173, 0x4EE3, 0x7801],
         [0x7406, 0x89E3, 0x4E0A, 0x4E0B, 0x6587, 0x65F6, 0xFF1A, 0x641C, 0x7D22, 0x76F8,
             0x5173, 0x5B9E, 0x73B0, 0x3001, 0x8C03, 0x7528, 0x5173, 0x7CFB],
         [0x7F16, 0x8F91, 0x524D, 0xFF1A, 0x786E, 0x8BA4, 0x8981, 0x4FEE, 0x6539, 0x7684,
             0x4EE3, 0x7801, 0x4F4D, 0x7F6E, 0x548C, 0x5F71, 0x54CD, 0x8303, 0x56F4]],
       howToUse = [asc ''`project_root_path`: '' @ [0x9879, 0x76EE, 0x6839, 0x76EE, 0x5F55,
           0x7684, 0x7EDD, 0x5BF9, 0x8DEF, 0x5F84, 0xFF08, 0x4F7F, 0x7528, 0x6B63, 0x659C,
           0x6760] @ asc '' `/`'' @ [0xFF09],
         asc ''`query`: '' @ [0x81EA, 0x7136, 0x8BED, 0x8A00, 0x641C, 0x7D22, 0x67E5, 0x8BE2,
             0xFF08, 0x5982, 34, 0x7528, 0x6237, 0x8BA4, 0x8BC1, 0x767B, 0x5F55, 34, 0x3001,
             34, 0x6570, 0x636E, 0x5E93, 0x8FDE, 0x63A5, 0x6C60, 34, 0x3001, 34, 0x9519,
             0x8BEF, 0x5904, 0x7406, 0x5F02, 0x5E38, 34, 0xFF09],
         [0x5DE5, 0x5177, 0x8FD4, 0x56DE, 0x5E26, 0x6709, 0x6587, 0x4EF6, 0x8DEF, 0x5F84,
             0x548C, 0x884C, 0x53F7, 0x7684, 0x683C, 0x5F0F, 0x5316, 0x4EE3, 0x7801, 0x7247,
             0x6BB5],
         [0x652F, 0x6301, 0x540E, 0x53F0, 0x589E, 0x91CF, 0x7D22, 0x5F15, 0xFF0C, 0x9996,
             0x6B21, 0x641C, 0x7D22, 0x65F6, 0x4F1A, 0x81EA, 0x52A8, 0x542F, 0x52A8, 0x7D22,
             0x5F15]]\<rparr>,
     ui = \<lparr>
       enabled = False,
       canDisable = True,
       icon = asc ''i-carbon-search text-lg text-green-600 dark:text-green-400'',
       iconBg = asc ''bg-green-100'',
       darkIconBg = asc ''dark:bg-green-900''\<rparr>\<rparr>"

definition tool_context7 :: ToolPromptConfig where
  "tool_context7 = \<lparr>
     tool_id = asc ''context7'',
     tool_name = [0x6846, 0x67B6, 0x6587, 0x6863],
     tool_description = [0x67E5, 0x8BE2, 0x6700, 0x65B0, 0x7684, 0x6846, 0x67B6, 0x548C,
         0x5E93, 0x6587, 0x6863, 0xFF0C, 0x652F, 0x6301] @ asc '' Next.js'' @ [0x3001]
         @ asc ''React'' @ [0x3001] @ asc ''Vue'' @ [0x3001] @ asc ''Spring '' @ [0x7B49,
         0x4E3B, 0x6D41, 0x6846, 0x67B6],
     prompt = \<lparr>
       base = [],
       whenToUse = [[0x83B7, 0x53D6, 0x6700, 0x65B0, 0x6587, 0x6863, 0x65F6, 0xFF1A, 0x67E5,
           0x8BE2, 0x6846, 0x67B6] @ asc ''/'' @ [0x5E93, 0x7684, 0x6700, 0x65B0, 0x5B98,
           0x65B9, 0x6587, 0x6863, 0xFF08, 0x5982] @ asc '' Next.js'' @ [0x3001]
           @ asc ''React'' @ [0x3001] @ asc ''Spring'' @ [0xFF09],
         asc ''AI '' @ [0x77E5, 0x8BC6, 0x4E0D, 0x786E, 0x5B9A, 0x65F6, 0xFF1A, 0x5F53, 0x5185,
             0x90E8, 0x77E5, 0x8BC6, 0x53EF, 0x80FD, 0x8FC7, 0x65F6, 0x6216, 0x4E0D, 0x786E,
             0x5B9A, 0x65F6, 0xFF0C, 0x4F18, 0x5148, 0x67E5, 0x8BE2, 0x6743, 0x5A01, 0x6587,
             0x6863],
         [0x907F, 0x514D, 0x5E7B, 0x89C9, 0xFF1A, 0x4F7F, 0x7528, 0x5B9E, 0x65F6, 0x6587,
             0x6863, 0x800C, 0x975E, 0x4F9D, 0x8D56, 0x8BAD, 0x7EC3, 0x6570, 0x636E, 0xFF0C,
             0x786E, 0x4FDD, 0x4FE1, 0x606F, 0x51C6, 0x786E, 0x6027]],
       howToUse = [asc ''`library`: '' @ [0x5E93, 0x6807, 0x8BC6, 0x7B26, 0xFF0C, 0x683C,
           0x5F0F] @ asc '' `owner/repo`'' @ [0xFF08, 0x5982] @ asc '' `vercel/next.js`''
           @ [0x3001] @ asc ''`facebook/react`'' @ [0xFF09],
         asc ''`topic`: '' @ [0x67E5, 0x8BE2, 0x4E3B, 0x9898, 0xFF08, 0x53EF, 0x9009, 0xFF0C,
             0x5982] @ asc '' `routing`'' @ [0x3001] @ asc ''`authentication`'' @ [0x3001]
             @ asc ''`core`'' @ [0xFF09],
         asc ''`version`: '' @ [0x7248, 0x672C, 0x53F7, 0xFF08, 0x53EF, 0x9009, 0xFF0C,
             0x5982] @ asc '' `v15.1.8`'' @ [0xFF09],
         asc ''`page`: '' @ [0x5206, 0x9875, 0x9875, 0x7801, 0xFF08, 0x53EF, 0x9009, 0xFF0C,
             0x9ED8, 0x8BA4] @ asc '' 1'' @ [0xFF0C, 0x6700, 0x5927] @ asc '' 10'' @ [0xFF09],
         [0x5982, 0x679C, 0x4E0D, 0x786E, 0x5B9A, 0x5B8C, 0x6574, 0x6807, 0x8BC6, 0x7B26,
             0xFF0C, 0x53EF, 0x4EE5, 0x5148, 0x4F7F, 0x7528, 0x7B80, 0x77ED, 0x540D, 0x79F0,
             0xFF0C, 0x5DE5, 0x5177, 0x4F1A, 0x81EA, 0x52A8, 0x641C, 0x7D22, 0x5019, 0x9009,
             0x5E93]]\<rparr>,
     ui = \<lparr>
       enabled = True,
       canDisable = True,
       icon = asc ''i-carbon-document text-lg text-orange-600 dark:text-orange-400'',
       iconBg = asc ''bg-orange-100'',
       darkIconBg = asc ''dark:bg-orange-900''\<rparr>\<rparr>"

definition MCP_TOOLS_CONFIG :: "ToolPromptConfig list" where
  "MCP_TOOLS_CONFIG = [tool_zhi, tool_memory, tool_sou, tool_context7]"

text \<open>
  \<open>generateFullPromptFromConfig\<close>: the core rules, extended by one \<open>- base\<close> line per
  enabled tool with a non-empty base; then, when some enabled tool has usage notes, the
  guide heading and one block per such tool. The parts are joined by blank lines.
\<close>

definition toolLines :: "ToolPromptConfig \<Rightarrow> jsstring list" where
  "toolLines tool =
     [asc ''### '' @ tool_name tool @ asc '' ('' @ tool_id tool @ asc '')'']
     @ (if whenToUse (prompt tool) \<noteq> []
        then [asc ''**'' @ [0x4F55, 0x65F6, 0x4F7F, 0x7528, 0xFF1A] @ asc ''**'']
             @ map (\<lambda>s. asc ''- '' @ s) (whenToUse (prompt tool))
        else [])
     @ (if howToUse (prompt tool) \<noteq> []
        then [asc ''**'' @ [0x5982, 0x4F55, 0x4F7F, 0x7528, 0xFF1A] @ asc ''**'']
             @ map (\<lambda>s. asc ''- '' @ s) (howToUse (prompt tool))
        else [])"

fun toolDetailsOf :: "ToolPromptConfig list \<Rightarrow> jsstring list" where
  "toolDetailsOf [] = []"
| "toolDetailsOf (tool # rest) =
     (if whenToUse (prompt tool) = [] \<and> howToUse (prompt tool) = []
      then toolDetailsOf rest
      else join [10] (toolLines tool) # toolDetailsOf rest)"

definition generateFullPromptFromConfig :: "ToolPromptConfig list \<Rightarrow> jsstring" where
  "generateFullPromptFromConfig tools =
     (let enabledTools = filter (\<lambda>t. enabled (ui t)) tools;
          baseParts = map (\<lambda>b. asc ''- '' @ b)
                        (filter truthy (map (\<lambda>t. base (prompt t)) enabledTools));
          parts0 = (if baseParts \<noteq> [] then CORE_RULES @ [10] @ join [10] baseParts
                    else CORE_RULES);
          toolDetails = toolDetailsOf enabledTools;
          parts = [parts0]
                  @ (if toolDetails \<noteq> []
                     then [asc ''## '' @ [0x5DE5, 0x5177, 0x4F7F, 0x7528, 0x6307, 0x5357] @ [10],
                           join [10, 10] toolDetails]
                     else [])
      in join [10, 10] parts)"

text \<open>
  \<open>generateFullPrompt\<close> maps each legacy entry to a full configuration: the entry of
  \<open>MCP_TOOLS_CONFIG\<close> with the same id (the first one, as \<open>Array.prototype.find\<close>),
  with \<open>enabled\<close> taken from the legacy entry; an unknown id gets an empty prompt.
\<close>

definition upgradeTool :: "ToolPromptConfig list \<Rightarrow> MCPToolConfig \<Rightarrow> ToolPromptConfig" where
  "upgradeTool configs tool =
     (case find (\<lambda>t. tool_id t = mcp_id tool) configs of
        Some config \<Rightarrow> config\<lparr>ui := (ui config)\<lparr>enabled := mcp_enabled tool\<rparr>\<rparr>
      | None \<Rightarrow>
          \<lparr>tool_id = mcp_id tool, tool_name = mcp_name tool,
           tool_description = mcp_description tool,
           prompt = \<lparr>base = [], whenToUse = [], howToUse = []\<rparr>,
           ui = \<lparr>enabled = mcp_enabled tool, canDisable = mcp_canDisable tool,
                 icon = mcp_icon tool, iconBg = mcp_iconBg tool,
                 darkIconBg = mcp_darkIconBg tool\<rparr>\<rparr>)"

definition generateFullPrompt :: "MCPToolConfig list \<Rightarrow> jsstring" where
  "generateFullPrompt mcpTools =
     generateFullPromptFromConfig (map (upgradeTool MCP_TOOLS_CONFIG) mcpTools)"

definition legacyOf :: "ToolPromptConfig \<Rightarrow> MCPToolConfig" where
  "legacyOf tool =
     \<lparr>mcp_id = tool_id tool, mcp_name = tool_name tool,
      mcp_description = tool_description tool,
      mcp_enabled = enabled (ui tool), mcp_canDisable = canDisable (ui tool),
      mcp_icon = icon (ui tool), mcp_iconBg = iconBg (ui tool),
      mcp_darkIconBg = darkIconBg (ui tool)\<rparr>"

definition DEFAULT_MCP_TOOLS :: "MCPToolConfig list" where
  "DEFAULT_MCP_TOOLS = map legacyOf MCP_TOOLS_CONFIG"

definition REFERENCE_PROMPT :: jsstring where
  "REFERENCE_PROMPT = generateFullPromptFromConfig MCP_TOOLS_CONFIG"

section \<open>Notions used in the statements\<close>

text \<open>
  An endpoint of the selected time range is missing: no range is selected, or one of its
  two timestamps is falsy (\<open>0\<close>).
\<close>

definition rangeMissing :: "(int \<times> int) option \<Rightarrow> bool" where
  "rangeMissing r = (case r of None \<Rightarrow> True | Some (startMs, endMs) \<Rightarrow> startMs = 0 \<or> endMs = 0)"

text \<open>
  The state of a conditional prompt as the switch shows it (\<open>current_state ?? false\<close>),
  and the prompt \<open>handleConditionalToggle\<close> finds for an id.
\<close>

definition displayedState :: "CustomPrompt \<Rightarrow> bool" where
  "displayedState p = (case current_state p of None \<Rightarrow> False | Some b \<Rightarrow> b)"

definition promptWithId :: "jsstring \<Rightarrow> PopupInput \<Rightarrow> CustomPrompt option" where
  "promptWithId promptId st = find (\<lambda>p. prompt_id p = promptId) (customPrompts st)"

text \<open>The \<open>response\<close> events an action has emitted, given the state it started in.\<close>

definition newResponses :: "McpPopup \<Rightarrow> McpPopup completion \<Rightarrow> DishResponse list" where
  "newResponses st c = drop (length (responses st)) (responses (finalState c))"


text \<open>
  The invariant of the mounted popup: the spice ids of the input's ingredients are
  pairwise distinct and not empty, the \<open>update\<close> events carry no empty spice id, and
  neither does the popup's list of spice ids.
\<close>

definition goodData :: "UpdateData \<Rightarrow> bool" where
  "goodData d = (case data_spiceIds d of None \<Rightarrow> True | Some ids \<Rightarrow> [] \<notin> set ids)"

definition inputInv :: "PopupInput \<Rightarrow> bool" where
  "inputInv st =
     (distinct (map spiceId (input_ingredients st))
      \<and> [] \<notin> set (map spiceId (input_ingredients st))
      \<and> list_all goodData (emitted st))"

definition popupInv :: "Popup \<Rightarrow> bool" where
  "popupInv sys = (inputInv (inputC sys) \<and> [] \<notin> set (spiceIds (popupC sys)))"


text \<open>
  The notions of the history search. The normalisation of a text folds the fullwidth
  colon, the fullwidth slash and the ideographic space to their ASCII counterparts.
\<close>

definition foldFullwidth :: "nat \<Rightarrow> nat" where
  "foldFullwidth c =
     (if c = 0xFF1A then 58 else if c = 0xFF0F then 47 else if c = 0x3000 then 32 else c)"

text \<open>
  The code units that count as white space, and what it means that \<open>core\<close> is \<open>s\<close>
  with the white space at both ends removed: \<open>s\<close> is \<open>core\<close> between two runs of white
  space, and \<open>core\<close> neither begins nor ends with white space.
\<close>

definition whiteSpaceUnits :: "nat set" where
  "whiteSpaceUnits =
     {9, 10, 11, 12, 13, 32, 160, 5760, 8232, 8233, 8239, 8287, 12288, 65279} \<union> {8192..8202}"

definition strippedOf :: "jsstring \<Rightarrow> jsstring \<Rightarrow> bool" where
  "strippedOf s core =
     (\<exists>pre suf. s = pre @ core @ suf
        \<and> list_all (\<lambda>c. c \<in> whiteSpaceUnits) pre \<and> list_all (\<lambda>c. c \<in> whiteSpaceUnits) suf
        \<and> (core = [] \<or> (hd core \<notin> whiteSpaceUnits \<and> last core \<notin> whiteSpaceUnits)))"

definition stripWhiteSpace :: "jsstring \<Rightarrow> jsstring" where
  "stripWhiteSpace s =
     rev (dropWhile (\<lambda>c. c \<in> whiteSpaceUnits) (rev (dropWhile (\<lambda>c. c \<in> whiteSpaceUnits) s)))"

text \<open>
  The key a text is searched by: white space removed at both ends, fullwidth punctuation
  folded, lower-cased.
\<close>

definition searchKey :: "runtime \<Rightarrow> jsstring \<Rightarrow> jsstring" where
  "searchKey rt t = toLowerCase rt (map foldFullwidth (stripWhiteSpace t))"

text \<open>
  \<open>s\<close> is the decimal numeral of \<open>n\<close>: digits only, of value \<open>n\<close>, without a leading
  zero unless it is \<open>0\<close>.
\<close>

definition decimalValue :: "jsstring \<Rightarrow> nat" where
  "decimalValue s = foldl (\<lambda>a c. 10 * a + (c - 48)) 0 s"

definition isDecimalOf :: "jsstring \<Rightarrow> nat \<Rightarrow> bool" where
  "isDecimalOf s n =
     (s \<noteq> [] \<and> list_all (\<lambda>c. 48 \<le> c \<and> c \<le> 57) s \<and> decimalValue s = n
      \<and> (s = [48] \<or> hd s \<noteq> 48))"

text \<open>
  The local time of an entry as the search sees it: \<open>y/m/d hh:mm:ss hh:mm y/m\<close>, the
  year, month and day as plain numerals, hours, minutes and seconds with two digits.
\<close>

definition twoDigits :: "nat \<Rightarrow> jsstring" where
  "twoDigits n = (if n < 10 then [48, 48 + n] else digits n)"

definition yearText :: "int \<Rightarrow> jsstring" where
  "yearText y = (if y < 0 then 45 # digits (nat (- y)) else digits (nat y))"

definition localTimeText :: "LocalTime \<Rightarrow> jsstring" where
  "localTimeText d =
     yearText (getFullYear d) @ [47] @ digits (getMonth d + 1) @ [47] @ digits (getDate d)
     @ [32] @ twoDigits (getHours d) @ [58] @ twoDigits (getMinutes d) @ [58]
     @ twoDigits (getSeconds d)
     @ [32] @ twoDigits (getHours d) @ [58] @ twoDigits (getMinutes d)
     @ [32] @ yearText (getFullYear d) @ [47] @ digits (getMonth d + 1)"

text \<open>
  The text of an entry that is searched: the id, the preview, the request id, the source,
  the raw timestamp and the local time, each two separated by one space; a missing request
  id or source is the empty text, and the local time of a timestamp that is no date is the
  timestamp itself.
\<close>

definition entryText :: "runtime \<Rightarrow> HistoryEntrySummary \<Rightarrow> jsstring" where
  "entryText rt e =
     entry_id e @ [32] @ preview e
     @ [32] @ (case request_id e of None \<Rightarrow> [] | Some r \<Rightarrow> r)
     @ [32] @ (case source e of None \<Rightarrow> [] | Some s \<Rightarrow> s)
     @ [32] @ timestamp e
     @ [32] @ (case parseDate rt (timestamp e) of
                 None \<Rightarrow> timestamp e
               | Some d \<Rightarrow> localTimeText d)"

section \<open>Concrete inputs\<close>

text \<open>
  A runtime whose lower-casing covers ASCII and whose clock knows one timestamp, two
  history entries and a backend with fixed answers: the inputs at which the theorems
  below are instantiated.
\<close>

definition asciiLower :: "jsstring \<Rightarrow> jsstring" where
  "asciiLower s = map (\<lambda>c. if 65 \<le> c \<and> c \<le> 90 then c + 32 else c) s"

definition demo_runtime :: runtime where
  "demo_runtime =
     \<lparr>toLowerCase = asciiLower,
      parseDate = (\<lambda>ts. if ts = asc ''2024-01-02T03:04:05Z''
                        then Some \<lparr>getFullYear = 2024, getMonth = 0, getDate = 2, getHours = 3,
                                    getMinutes = 4, getSeconds = 5\<rparr>
                        else None),
      isoDigits = (\<lambda>ms. asc ''1970-01-01T00:00:0'' @ digits (nat ms div 1000) @ asc ''.000''),
      dateNow = 0\<rparr>"

definition demo_entry1 :: HistoryEntrySummary where
  "demo_entry1 = \<lparr>entry_id = asc ''a1'', timestamp = asc ''2024-01-02T03:04:05Z'',
     request_id = Some (asc ''REQ-7''), source = None, preview = asc ''Build Failed''\<rparr>"

definition demo_entry2 :: HistoryEntrySummary where
  "demo_entry2 = \<lparr>entry_id = asc ''b2'', timestamp = asc ''yesterday'',
     request_id = None, source = Some (asc ''popup''), preview = asc ''all good''\<rparr>"

definition demo_backend :: backend where
  "demo_backend =
     \<lparr>export_mcp_history_entry_zip = (\<lambda>i. Inr (asc ''/tmp/'' @ i @ asc ''.zip'')),
      export_mcp_history_by_time_range_zip = (\<lambda>s e. Inr (asc ''/tmp/range.zip'')),
      delete_mcp_history_by_time_range = (\<lambda>s e. Inr 1),
      delete_mcp_history_entry = (\<lambda>i. Inr ()),
      list_mcp_history_entries = (\<lambda>n. Inr (Some [demo_entry2])),
      get_mcp_history_entry = (\<lambda>i. Inl (Rejected (asc ''not found'') None)),
      stash_ingredient_bytes_cmd = (\<lambda>bytes ty tag. Inr (asc ''spice-'' @ digits (length bytes))),
      read_clipboard_ingredients_cached = Inr [],
      update_custom_prompt_order = (\<lambda>ids. Inr ()),
      update_conditional_prompt_state = (\<lambda>i b. Inr ()),
      get_custom_prompt_config = Inr None,
      send_mcp_response = (\<lambda>r. Inr ()),
      exit_app = Inr ()\<rparr>"

definition demo_history :: HistoryTab where
  "demo_history =
     \<lparr>messages = [], console = [], invoked = [],
      entries = [demo_entry1, demo_entry2], search = [], range = None,
      selectedId = asc ''a1'', selectedDetail = None, loading = False, detailLoading = False\<rparr>"

text \<open>Two requests that differ in the \<open>chalkboard\<close> flag only.\<close>

definition demo_request :: McpRequest where
  "demo_request =
     \<lparr>req_id = asc ''req-1'', req_message = asc ''Proceed?'',
      menu = Some [asc ''yes'', asc ''no''], chalkboard = None,
      project_root_path = Some (asc ''/home/user/project'')\<rparr>"

definition demo_request_chalkboard :: McpRequest where
  "demo_request_chalkboard = demo_request\<lparr>chalkboard := Some True\<rparr>"

text \<open>
  A backend that rejects every command, and an input with one conditional prompt, whose
  state is undefined (\<open>demo_prompt\<close>) or off (\<open>demo_prompt_off\<close>).
\<close>

definition demo_error :: error where
  "demo_error = Rejected (asc ''backend unavailable'') None"

definition failing_backend :: backend where
  "failing_backend =
     \<lparr>export_mcp_history_entry_zip = (\<lambda>i. Inl demo_error),
      export_mcp_history_by_time_range_zip = (\<lambda>s e. Inl demo_error),
      delete_mcp_history_by_time_range = (\<lambda>s e. Inl demo_error),
      delete_mcp_history_entry = (\<lambda>i. Inl demo_error),
      list_mcp_history_entries = (\<lambda>n. Inl demo_error),
      get_mcp_history_entry = (\<lambda>i. Inl demo_error),
      stash_ingredient_bytes_cmd = (\<lambda>bytes ty tag. Inl demo_error),
      read_clipboard_ingredients_cached = Inl demo_error,
      update_custom_prompt_order = (\<lambda>ids. Inl demo_error),
      update_conditional_prompt_state = (\<lambda>i b. Inl demo_error),
      get_custom_prompt_config = Inl demo_error,
      send_mcp_response = (\<lambda>r. Inl demo_error),
      exit_app = Inl demo_error\<rparr>"

definition demo_prompt :: CustomPrompt where
  "demo_prompt =
     \<lparr>prompt_id = asc ''p1'', prompt_name = asc ''tests'', content = [],
      prompt_description = None, sort_order = 1, created_at = asc ''2024-01-01'',
      updated_at = asc ''2024-01-01'', prompt_type = Some Conditional,
      condition_text = Some (asc ''write tests''), template_true = Some (asc ''Write tests.''),
      template_false = Some (asc ''No tests.''), current_state = None\<rparr>"


definition demo_prompt_off :: CustomPrompt where
  "demo_prompt_off = demo_prompt\<lparr>current_state := Some False\<rparr>"

definition demo_input_off :: PopupInput where
  "demo_input_off = (inputC mounted)\<lparr>customPrompts := [demo_prompt_off]\<rparr>"

text \<open>A popup in mock mode with a note, a chosen option and an attachment.\<close>

definition demo_props :: PopupProps where
  "demo_props = \<lparr>props_request = Some demo_request, mockMode = True\<rparr>"

definition demo_popup :: McpPopup where
  "demo_popup =
     (popupC mounted)\<lparr>popup_note := asc '' ship it '', popup_toppings := [asc ''yes''],
                      spiceIds := [asc ''spice-3'']\<rparr>"

text \<open>
  An image file, a browser without the asynchronous clipboard, and the popup outside
  mock mode.
\<close>

definition demo_file :: File where
  "demo_file =
     \<lparr>file_name = asc ''shot.png'', file_type = asc ''image/png'',
      arrayBuffer = Inr [137, 80, 78, 71]\<rparr>"

definition demo_browser :: browser where
  "demo_browser =
     \<lparr>createObjectURL = (\<lambda>bytes. asc ''blob:preview-'' @ digits (length bytes)),
      fetchBlob = (\<lambda>url. Inl demo_error),
      imgSrcMatches = (\<lambda>html. []),
      clipboardRead = None\<rparr>"


text \<open>
  A paste event with one attached image, the popup without a request, a clipboard block
  and a browser for pasted HTML, and the input after the paste.
\<close>

definition demo_paste :: ClipboardEvent where
  "demo_paste =
     \<lparr>defaultPrevented = False,
      clipboardData = Some \<lparr>files = [demo_file], items = None, text_html = [], text_plain = []\<rparr>\<rparr>"

definition plain_props :: PopupProps where
  "plain_props = \<lparr>props_request = None, mockMode = True\<rparr>"

definition demo_block :: ClipboardBlock where
  "demo_block =
     \<lparr>block_spice_id = Some (asc ''spice-4''), block_bytes = Some [137, 80, 78, 71],
      block_dish_type = Some (asc ''image/png'')\<rparr>"

definition html_browser :: browser where
  "html_browser =
     demo_browser\<lparr>fetchBlob := (\<lambda>url. Inr \<lparr>blob_type = asc ''image/png'',
                                               blob_bytes = [137, 80, 78, 71]\<rparr>),
                   imgSrcMatches := (\<lambda>html. [asc ''data:image/png;base64,iVBORw=='']) \<rparr>"

definition pasted_input :: PopupInput where
  "pasted_input = inputC (run [Paste demo_runtime demo_browser demo_backend demo_paste])"








text \<open>
  A query written with an ideographic space, a fullwidth colon and a fullwidth slash:
  \<open>03:04 2024/1\<close> once normalised.
\<close>

definition fullwidth_query :: jsstring where
  "fullwidth_query = [0x3000] @ asc ''03'' @ [0xFF1A] @ asc ''04 2024'' @ [0xFF0F] @ asc ''1 ''"

section \<open>Properties of the prompt generators\<close>

lemma upgradeTool_legacyOf:
  assumes "distinct (map tool_id configs)" and "c \<in> set configs"
  shows "upgradeTool configs (legacyOf c) = c"
proof -
  have "find (\<lambda>t. tool_id t = tool_id c) configs = Some c"
    using assms
  proof (induction configs)
    case Nil
    then show ?case by simp
  next
    case (Cons a configs)
    then show ?case by (cases "a = c") force+
  qed
  then show ?thesis
    by (simp add: upgradeTool_def legacyOf_def)
qed

lemma upgrade_all_legacy:
  assumes "distinct (map tool_id configs)"
  shows "map (upgradeTool configs) (map legacyOf configs) = configs"
  using assms by (simp add: map_idI upgradeTool_legacyOf)

lemma MCP_TOOLS_CONFIG_ids:
  "map tool_id MCP_TOOLS_CONFIG = [asc ''zhi'', asc ''memory'', asc ''sou'', asc ''context7'']"
  by (simp add: MCP_TOOLS_CONFIG_def tool_zhi_def tool_memory_def tool_sou_def
      tool_context7_def)

lemma MCP_TOOLS_CONFIG_distinct: "distinct (map tool_id MCP_TOOLS_CONFIG)"
  unfolding MCP_TOOLS_CONFIG_ids by (simp add: asc_def)

text \<open>
  Claim C9. On the default configuration the legacy generator agrees with the new one:
  \<open>generateFullPrompt\<close> applied to \<open>DEFAULT_MCP_TOOLS\<close> returns exactly
  \<open>REFERENCE_PROMPT\<close>, the result of \<open>generateFullPromptFromConfig\<close> on
  \<open>MCP_TOOLS_CONFIG\<close>.
\<close>

theorem legacy_prompt_equals_reference:
  "generateFullPrompt DEFAULT_MCP_TOOLS = REFERENCE_PROMPT"
  unfolding generateFullPrompt_def DEFAULT_MCP_TOOLS_def REFERENCE_PROMPT_def
  by (simp only: upgrade_all_legacy [OF MCP_TOOLS_CONFIG_distinct])

section \<open>The history search\<close>

lemma startsWith_iff: "startsWith s p \<longleftrightarrow> (\<exists>suf. s = p @ suf)"
  unfolding startsWith_def
  by (metis append_eq_conv_conj append_take_drop_id)

lemma includes_str_iff: "includes_str s q \<longleftrightarrow> (\<exists>pre suf. s = pre @ q @ suf)"
proof (induction s)
  case Nil
  then show ?case by auto
next
  case (Cons c s)
  show ?case
  proof
    assume "includes_str (c # s) q"
    then consider "startsWith (c # s) q" | "includes_str s q" by auto
    then show "\<exists>pre suf. c # s = pre @ q @ suf"
    proof cases
      case 1
      then obtain suf where "c # s = q @ suf" using startsWith_iff by blast
      then have "c # s = [] @ q @ suf" by simp
      then show ?thesis by blast
    next
      case 2
      then obtain pre suf where "s = pre @ q @ suf" using Cons.IH by blast
      then have "c # s = (c # pre) @ q @ suf" by simp
      then show ?thesis by blast
    qed
  next
    assume "\<exists>pre suf. c # s = pre @ q @ suf"
    then obtain pre suf where eq: "c # s = pre @ q @ suf" by blast
    show "includes_str (c # s) q"
    proof (cases pre)
      case Nil
      with eq have "startsWith (c # s) q" using startsWith_iff by auto
      then show ?thesis by simp
    next
      case (Cons a pre')
      with eq have "s = pre' @ q @ suf" by simp
      then have "includes_str s q" using Cons.IH by blast
      then show ?thesis by simp
    qed
  qed
qed

lemmas demo_eval = normalizeSearchText_def demo_runtime_def asciiLower_def trim_def
  isWhiteSpace_def replaceAll_def asc_def filteredEntries_def haystack_def truthy_def
  formatTimeForSearch_def demo_entry1_def demo_entry2_def orEmpty_def startsWith_def
  showInt_def padStart2_def digits.simps Let_def

lemma isWhiteSpace_units: "isWhiteSpace c \<longleftrightarrow> c \<in> whiteSpaceUnits"
  by (auto simp: isWhiteSpace_def whiteSpaceUnits_def)

lemma trim_stripped: "strippedOf s (trim s)"
proof -
  let ?ws = isWhiteSpace
  let ?b = "dropWhile ?ws s"
  let ?core = "rev (dropWhile ?ws (rev ?b))"
  let ?suf = "rev (takeWhile ?ws (rev ?b))"
  have b: "?b = ?core @ ?suf"
    by (metis rev_append rev_rev_ident takeWhile_dropWhile_id)
  have s: "s = takeWhile ?ws s @ ?core @ ?suf"
    using b by (metis takeWhile_dropWhile_id)
  have p: "list_all ?ws (takeWhile ?ws s)"
    by (auto simp: list_all_iff dest: set_takeWhileD)
  have q: "list_all ?ws ?suf"
    by (auto simp: list_all_iff dest: set_takeWhileD)
  have e: "\<not> ?ws (hd ?core) \<and> \<not> ?ws (last ?core)" if ne: "?core \<noteq> []"
  proof
    have "?b \<noteq> []"
    proof
      assume "?b = []"
      then have "?core = []" by (simp only: rev.simps dropWhile.simps)
      with ne show False by simp
    qed
    then have "\<not> ?ws (hd ?b)" by (rule hd_dropWhile)
    moreover have "hd ?b = hd ?core" using b ne by (metis hd_append2)
    ultimately show "\<not> ?ws (hd ?core)" by simp
    have "dropWhile ?ws (rev ?b) \<noteq> []" using ne by simp
    then have "\<not> ?ws (hd (dropWhile ?ws (rev ?b)))" by (rule hd_dropWhile)
    then show "\<not> ?ws (last ?core)" using ne by (simp add: last_rev)
  qed
  have "trim s = ?core" by (simp add: trim_def)
  then show ?thesis
    unfolding strippedOf_def using s p q e
    by (metis (mono_tags, lifting) isWhiteSpace_units list_all_iff)
qed

lemma decimalValue_snoc: "decimalValue (s @ [c]) = 10 * decimalValue s + (c - 48)"
  by (simp add: decimalValue_def)

lemma digits_decimal: "isDecimalOf (digits n) n"
proof (induction n rule: digits.induct)
  case (1 n)
  show ?case
  proof (cases "n < 10")
    case True
    then show ?thesis
      by (auto simp: digits.simps [of n] isDecimalOf_def decimalValue_def)
  next
    case False
    then have ih: "isDecimalOf (digits (n div 10)) (n div 10)" using 1 by simp
    have d: "digits n = digits (n div 10) @ [48 + n mod 10]"
      using False by (simp add: digits.simps [of n])
    have pos: "n div 10 \<noteq> 0" using False by auto
    have ne: "digits (n div 10) \<noteq> []" using ih by (simp add: isDecimalOf_def)
    have h: "hd (digits (n div 10)) \<noteq> 48"
    proof
      assume z: "hd (digits (n div 10)) = 48"
      with ih have "digits (n div 10) = [48]" by (auto simp: isDecimalOf_def)
      with ih have "n div 10 = 0" by (simp add: isDecimalOf_def decimalValue_def)
      with pos show False by simp
    qed
    show ?thesis
      using ih ne h unfolding d
      by (simp add: isDecimalOf_def decimalValue_snoc)
  qed
qed


lemma trim_stripWhiteSpace: "trim s = stripWhiteSpace s"
proof -
  have "isWhiteSpace = (\<lambda>c. c \<in> whiteSpaceUnits)"
    by (rule ext) (rule isWhiteSpace_units)
  then show ?thesis by (simp add: trim_def stripWhiteSpace_def)
qed

lemma replaceAll_foldFullwidth:
  "replaceAll 0x3000 32 (replaceAll 0xFF0F 47 (replaceAll 0xFF1A 58 s)) = map foldFullwidth s"
  by (simp add: replaceAll_def foldFullwidth_def)

lemma normalizeSearchText_searchKey: "normalizeSearchText rt t = searchKey rt t"
  by (simp only: normalizeSearchText_def searchKey_def replaceAll_foldFullwidth
      trim_stripWhiteSpace)

lemma digits_length: "10 \<le> n \<Longrightarrow> 2 \<le> length (digits n)"
proof -
  assume n: "10 \<le> n"
  have "digits (n div 10) \<noteq> []" using digits_decimal [of "n div 10"]
    by (simp add: isDecimalOf_def)
  then have "1 \<le> length (digits (n div 10))" by (cases "digits (n div 10)") simp_all
  moreover have "digits n = digits (n div 10) @ [48 + n mod 10]"
    using n by (simp add: digits.simps [of n])
  ultimately show ?thesis by simp
qed

lemma padStart2_twoDigits: "padStart2 (digits n) = twoDigits n"
proof (cases "n < 10")
  case True
  then show ?thesis by (simp add: padStart2_def twoDigits_def digits.simps [of n])
next
  case False
  then have "2 \<le> length (digits n)" using digits_length by simp
  then show ?thesis using False by (simp add: padStart2_def twoDigits_def)
qed

lemma formatTimeForSearch_localTimeText:
  "formatTimeForSearch rt ts
   = (case parseDate rt ts of None \<Rightarrow> ts | Some d \<Rightarrow> localTimeText d)"
  by (simp add: formatTimeForSearch_def localTimeText_def padStart2_twoDigits showInt_def
      yearText_def asc_def Let_def split: option.splits)

lemma haystack_entryText: "haystack rt e = searchKey rt (entryText rt e)"
  by (simp add: haystack_def entryText_def normalizeSearchText_searchKey orEmpty_def
      formatTimeForSearch_localTimeText asc_def)

lemma stripWhiteSpace_stripped: "strippedOf t (stripWhiteSpace t)"
  using trim_stripped [of t] by (simp add: trim_stripWhiteSpace)

lemmas search_eval = searchKey_def stripWhiteSpace_def whiteSpaceUnits_def foldFullwidth_def
  entryText_def localTimeText_def twoDigits_def yearText_def fullwidth_query_def

text \<open>
  Claim C4 says that the text searched is the concatenation of the entry's fields. The
  code joins the fields with single spaces: the entry with the id \<open>a1\<close> and the preview
  \<open>Build Failed\<close> is not found by the query \<open>a1build\<close>, which the normalised
  concatenation of its fields contains.
\<close>

theorem search_concatenation_counterexample:
  "normalizeSearchText demo_runtime
     (entry_id demo_entry1 @ preview demo_entry1 @ orEmpty (request_id demo_entry1)
      @ orEmpty (source demo_entry1) @ timestamp demo_entry1
      @ formatTimeForSearch demo_runtime (timestamp demo_entry1))
   = asc ''a1build failedreq-72024-01-02t03:04:05z2024/1/2 03:04:05 03:04 2024/1''
   \<and> normalizeSearchText demo_runtime (asc ''a1build'') = asc ''a1build''
   \<and> includes_str
        (asc ''a1build failedreq-72024-01-02t03:04:05z2024/1/2 03:04:05 03:04 2024/1'')
        (asc ''a1build'')
   \<and> filteredEntries demo_runtime [demo_entry1] (asc ''a1build'') = []"
  by (simp add: demo_eval)

lemma contains_empty: "\<exists>pre suf. (k :: jsstring) = pre @ [] @ suf"
  by (rule exI [of _ "[]"]) simp

text \<open>
  Claim C4, amended. The history filter is linear string matching. The key of a text is
  the text with the white space at both ends removed, the fullwidth colon, slash and space
  folded to ASCII, and lower-cased. When the key of the query is empty the filtered list
  is the whole list, unchanged; otherwise it keeps, in their order, exactly the entries
  for which the key of the entry's text contains the key of the query as a substring; in
  both cases an entry is in the filtered list if and only if it is in the list and the
  key of its text contains the key of the query. The entry's text is the id, the preview,
  the request id, the source, the raw timestamp and the local time
  \<open>y/m/d hh:mm:ss hh:mm y/m\<close> (hours, minutes and seconds with two digits), joined by
  single spaces. Removing the white space leaves the text between its leading and its
  trailing white space, and the numerals of the local time are the decimal ones.
\<close>

theorem filteredEntries_linear_match:
  "filteredEntries rt es s =
     (if searchKey rt s = [] then es
      else filter
             (\<lambda>e. \<exists>pre suf. searchKey rt (entryText rt e) = pre @ searchKey rt s @ suf) es)
   \<and> (e \<in> set (filteredEntries rt es s) \<longleftrightarrow>
        e \<in> set es
        \<and> (\<exists>pre suf. searchKey rt (entryText rt e) = pre @ searchKey rt s @ suf))
   \<and> strippedOf t (stripWhiteSpace t)
   \<and> isDecimalOf (digits n) n"
proof -
  have f: "filteredEntries rt es s =
     (if searchKey rt s = [] then es
      else filter
             (\<lambda>e. \<exists>pre suf. searchKey rt (entryText rt e) = pre @ searchKey rt s @ suf) es)"
    by (simp add: filteredEntries_def haystack_entryText normalizeSearchText_searchKey truthy_def
        includes_str_iff Let_def)
  have m: "e \<in> set (filteredEntries rt es s) \<longleftrightarrow>
        e \<in> set es
        \<and> (\<exists>pre suf. searchKey rt (entryText rt e) = pre @ searchKey rt s @ suf)"
  proof (cases "searchKey rt s = []")
    case True
    then show ?thesis using f contains_empty [of "searchKey rt (entryText rt e)"] by simp
  next
    case False
    then show ?thesis using f by simp
  qed
  show ?thesis using f m stripWhiteSpace_stripped digits_decimal by simp
qed

lemma demo_keys:
  "searchKey demo_runtime fullwidth_query = asc ''03:04 2024/1''"
  "searchKey demo_runtime (entryText demo_runtime demo_entry1)
   = asc ''a1 build failed req-7  2024-01-02t03:04:05z 2024/1/2 03:04:05 03:04 2024/1''"
  "searchKey demo_runtime (entryText demo_runtime demo_entry2)
   = asc ''b2 all good  popup yesterday yesterday''"
  "searchKey demo_runtime ([0x3000] @ asc ''  '') = []"
  by (simp_all add: search_eval demo_eval)

theorem filteredEntries_linear_match_witness:
  "searchKey demo_runtime fullwidth_query = asc ''03:04 2024/1''
   \<and> searchKey demo_runtime (entryText demo_runtime demo_entry1)
     = asc ''a1 build failed req-7  2024-01-02t03:04:05z 2024/1/2 03:04:05 03:04 2024/1''
   \<and> searchKey demo_runtime (entryText demo_runtime demo_entry2)
     = asc ''b2 all good  popup yesterday yesterday''
   \<and> filteredEntries demo_runtime [demo_entry1, demo_entry2] fullwidth_query = [demo_entry1]
   \<and> filteredEntries demo_runtime [demo_entry1, demo_entry2] (asc '' FAILED'') = [demo_entry1]
   \<and> filteredEntries demo_runtime [demo_entry1, demo_entry2] (asc ''Y YES'') = [demo_entry2]
   \<and> filteredEntries demo_runtime [demo_entry1, demo_entry2] (asc ''a1build'') = []
   \<and> filteredEntries demo_runtime [demo_entry1, demo_entry2] ([0x3000] @ asc ''  '')
     = [demo_entry1, demo_entry2]
   \<and> demo_entry1 \<in> set (filteredEntries demo_runtime [demo_entry1, demo_entry2] fullwidth_query)
   \<and> strippedOf ([0x3000] @ asc ''  x '') (asc ''x'')
   \<and> isDecimalOf (asc ''2024'') 2024"
proof -
  note k = demo_keys
  have q: "searchKey demo_runtime (asc '' FAILED'') = asc ''failed''"
    "searchKey demo_runtime (asc ''Y YES'') = asc ''y yes''"
    "searchKey demo_runtime (asc ''a1build'') = asc ''a1build''"
    "stripWhiteSpace ([0x3000] @ asc ''  x '') = asc ''x''"
    "digits 2024 = asc ''2024''"
    by (simp_all add: search_eval demo_eval)
  let ?k1 = "asc ''a1 build failed req-7  2024-01-02t03:04:05z 2024/1/2 03:04:05 03:04 2024/1''"
  let ?k2 = "asc ''b2 all good  popup yesterday yesterday''"
  have i: "includes_str ?k1 (asc ''03:04 2024/1'')" "\<not> includes_str ?k2 (asc ''03:04 2024/1'')"
    "includes_str ?k1 (asc ''failed'')" "\<not> includes_str ?k2 (asc ''failed'')"
    "\<not> includes_str ?k1 (asc ''y yes'')" "includes_str ?k2 (asc ''y yes'')"
    "\<not> includes_str ?k1 (asc ''a1build'')" "\<not> includes_str ?k2 (asc ''a1build'')"
    by (simp_all add: asc_def startsWith_def)
  have m: "\<exists>pre suf. ?k1 = pre @ asc ''03:04 2024/1'' @ suf"
    "\<not> (\<exists>pre suf. ?k2 = pre @ asc ''03:04 2024/1'' @ suf)"
    "\<exists>pre suf. ?k1 = pre @ asc ''failed'' @ suf"
    "\<not> (\<exists>pre suf. ?k2 = pre @ asc ''failed'' @ suf)"
    "\<not> (\<exists>pre suf. ?k1 = pre @ asc ''y yes'' @ suf)"
    "\<exists>pre suf. ?k2 = pre @ asc ''y yes'' @ suf"
    "\<not> (\<exists>pre suf. ?k1 = pre @ asc ''a1build'' @ suf)"
    "\<not> (\<exists>pre suf. ?k2 = pre @ asc ''a1build'' @ suf)"
    by (simp_all only: includes_str_iff [symmetric] i simp_thms)
  have z: "asc ''03:04 2024/1'' \<noteq> []" "asc ''failed'' \<noteq> []" "asc ''y yes'' \<noteq> []"
    "asc ''a1build'' \<noteq> []"
    by (simp_all add: asc_def)
  note T = filteredEntries_linear_match [where rt = demo_runtime
        and es = "[demo_entry1, demo_entry2]" and e = demo_entry1
        and t = "[0x3000] @ asc ''  x ''" and n = 2024]
  have 1: "filteredEntries demo_runtime [demo_entry1, demo_entry2] fullwidth_query = [demo_entry1]"
    "demo_entry1 \<in> set (filteredEntries demo_runtime [demo_entry1, demo_entry2] fullwidth_query)"
    using T [where s = fullwidth_query] k m z by simp_all
  have 2: "filteredEntries demo_runtime [demo_entry1, demo_entry2] (asc '' FAILED'') = [demo_entry1]"
    using T [where s = "asc '' FAILED''"] k q m z by simp
  have 3: "filteredEntries demo_runtime [demo_entry1, demo_entry2] (asc ''Y YES'') = [demo_entry2]"
    using T [where s = "asc ''Y YES''"] k q m z by simp
  have 4: "filteredEntries demo_runtime [demo_entry1, demo_entry2] (asc ''a1build'') = []"
    using T [where s = "asc ''a1build''"] k q m z by simp
  have 5: "filteredEntries demo_runtime [demo_entry1, demo_entry2] ([0x3000] @ asc ''  '')
     = [demo_entry1, demo_entry2]"
    using T [where s = "[0x3000] @ asc ''  ''"] k by simp
  have 6: "strippedOf ([0x3000] @ asc ''  x '') (asc ''x'')" "isDecimalOf (asc ''2024'') 2024"
    using T [where s = "[]"] q by simp_all
  show ?thesis
    by (intro conjI) (fact k 1 2 3 4 5 6)+
qed

section \<open>Deleting history entries by time range\<close>

lemma loadEntries_fields:
  "selectedId (loadEntries be st) = selectedId st"
  "selectedDetail (loadEntries be st) = selectedDetail st"
  "invoked (loadEntries be st) = invoked st @ [List_mcp_history_entries 500]"
  "entries (loadEntries be st) =
     (case list_mcp_history_entries be 500 of
        Inr list \<Rightarrow> (case list of None \<Rightarrow> [] | Some l \<Rightarrow> l)
      | Inl err \<Rightarrow> entries st)"
  by (simp_all add: loadEntries_def invoke_def notify_def report_def Let_def split: sum.splits)

lemma loadEntries_messages:
  "\<exists>more. messages (loadEntries be st) = messages st @ more"
  by (simp add: loadEntries_def invoke_def notify_def report_def Let_def split: sum.splits)

lemma toISOString_truthy: "toISOString rt ms = Inr s \<Longrightarrow> truthy s"
  by (auto simp: toISOString_def truthy_def asc_def split: if_splits)

lemma getRangeIso_missing: "rangeMissing r \<Longrightarrow> getRangeIso rt r = Inr (None, None)"
  by (auto simp: rangeMissing_def getRangeIso_def split: option.splits)

text \<open>
  Claim C6. \<open>deleteRange\<close> runs only when both a start and an end timestamp are
  selected. When an endpoint is missing it shows a warning and nothing else changes: no
  backend command is invoked, the entries and the selection stay. Whenever it invokes
  a backend command, both endpoints are selected. When the backend deletes and answers
  with the number of deleted entries, the handler reports that number, clears the
  selected id and detail, and reloads the list (\<open>list_mcp_history_entries\<close>, whose
  answer replaces the entries).
\<close>

theorem deleteRange_guard:
  "(rangeMissing (range st) \<longrightarrow>
      deleteRange rt be st = Returned (st\<lparr>messages := messages st @ [MsgWarning txt_select_range]\<rparr>))
   \<and> (invoked (finalState (deleteRange rt be st)) \<noteq> invoked st \<longrightarrow>
        (\<exists>startMs endMs. range st = Some (startMs, endMs) \<and> startMs \<noteq> 0 \<and> endMs \<noteq> 0))
   \<and> (range st = Some (startMs, endMs) \<and> startMs \<noteq> 0 \<and> endMs \<noteq> 0
        \<and> toISOString rt startMs = Inr startIso \<and> toISOString rt endMs = Inr endIso
        \<and> delete_mcp_history_by_time_range be startIso endIso = Inr deleted \<longrightarrow>
        (\<exists>st'. deleteRange rt be st = Returned st'
           \<and> selectedId st' = [] \<and> selectedDetail st' = None
           \<and> invoked st' = invoked st @ [Delete_mcp_history_by_time_range startIso endIso,
                                          List_mcp_history_entries 500]
           \<and> (\<exists>more. messages st' = messages st
                 @ [MsgSuccess (txt_deleted_pre @ showInt deleted @ txt_deleted_post)] @ more)
           \<and> entries st' =
               (case list_mcp_history_entries be 500 of
                  Inr list \<Rightarrow> (case list of None \<Rightarrow> [] | Some l \<Rightarrow> l)
                | Inl err \<Rightarrow> entries st)))"
proof (intro conjI impI)
  assume "rangeMissing (range st)"
  then show "deleteRange rt be st = Returned (st\<lparr>messages := messages st @ [MsgWarning txt_select_range]\<rparr>)"
    by (simp add: deleteRange_def getRangeIso_missing notify_def)
next
  assume a: "invoked (finalState (deleteRange rt be st)) \<noteq> invoked st"
  show "\<exists>startMs endMs. range st = Some (startMs, endMs) \<and> startMs \<noteq> 0 \<and> endMs \<noteq> 0"
  proof (rule ccontr)
    assume "\<not> ?thesis"
    then have "rangeMissing (range st)"
      by (auto simp: rangeMissing_def split: option.splits)
    then have "deleteRange rt be st = Returned (st\<lparr>messages := messages st @ [MsgWarning txt_select_range]\<rparr>)"
      by (simp add: deleteRange_def getRangeIso_missing notify_def)
    with a show False by auto
  qed
next
  assume a: "range st = Some (startMs, endMs) \<and> startMs \<noteq> 0 \<and> endMs \<noteq> 0
        \<and> toISOString rt startMs = Inr startIso \<and> toISOString rt endMs = Inr endIso
        \<and> delete_mcp_history_by_time_range be startIso endIso = Inr deleted"
  then have g: "getRangeIso rt (range st) = Inr (Some startIso, Some endIso)"
    by (simp add: getRangeIso_def)
  from a have t: "truthy startIso" "truthy endIso"
    using toISOString_truthy by blast+
  let ?st1 = "(notify (MsgSuccess (txt_deleted_pre @ showInt deleted @ txt_deleted_post))
                 (invoke (Delete_mcp_history_by_time_range startIso endIso) st))
              \<lparr>selectedId := [], selectedDetail := None\<rparr>"
  have r: "deleteRange rt be st = Returned (loadEntries be ?st1)"
    using a g t by (simp add: deleteRange_def Let_def)
  obtain more where m: "messages (loadEntries be ?st1) = messages ?st1 @ more"
    using loadEntries_messages by blast
  show "\<exists>st'. deleteRange rt be st = Returned st'
           \<and> selectedId st' = [] \<and> selectedDetail st' = None
           \<and> invoked st' = invoked st @ [Delete_mcp_history_by_time_range startIso endIso,
                                          List_mcp_history_entries 500]
           \<and> (\<exists>more. messages st' = messages st
                 @ [MsgSuccess (txt_deleted_pre @ showInt deleted @ txt_deleted_post)] @ more)
           \<and> entries st' =
               (case list_mcp_history_entries be 500 of
                  Inr list \<Rightarrow> (case list of None \<Rightarrow> [] | Some l \<Rightarrow> l)
                | Inl err \<Rightarrow> entries st)"
    using r m by (simp add: loadEntries_fields notify_def invoke_def split: sum.splits)
qed

theorem deleteRange_guard_witness:
  "rangeMissing (range demo_history)
   \<and> deleteRange demo_runtime demo_backend demo_history
       = Returned (demo_history\<lparr>messages := [MsgWarning txt_select_range]\<rparr>)
   \<and> (\<exists>st'. deleteRange demo_runtime demo_backend (demo_history\<lparr>range := Some (1000, 2000)\<rparr>)
              = Returned st'
         \<and> selectedId st' = [] \<and> selectedDetail st' = None
         \<and> invoked st' = [Delete_mcp_history_by_time_range (asc ''1970-01-01T00:00:01.000Z'')
                              (asc ''1970-01-01T00:00:02.000Z''),
                            List_mcp_history_entries 500]
         \<and> entries st' = [demo_entry2])"
proof -
  have m: "rangeMissing (range demo_history)"
    by (simp add: rangeMissing_def demo_history_def)
  have s: "toISOString demo_runtime 1000 = Inr (asc ''1970-01-01T00:00:01.000Z'')"
    by (simp add: toISOString_def demo_runtime_def digits.simps asc_def)
  have e: "toISOString demo_runtime 2000 = Inr (asc ''1970-01-01T00:00:02.000Z'')"
    by (simp add: toISOString_def demo_runtime_def digits.simps asc_def)
  have d: "delete_mcp_history_by_time_range demo_backend (asc ''1970-01-01T00:00:01.000Z'')
             (asc ''1970-01-01T00:00:02.000Z'') = Inr 1"
    by (simp add: demo_backend_def)
  have r: "range (demo_history\<lparr>range := Some (1000, 2000)\<rparr>) = Some (1000, 2000)"
    by simp
  have l: "list_mcp_history_entries demo_backend 500 = Inr (Some [demo_entry2])"
    by (simp add: demo_backend_def)
  have i: "invoked (demo_history\<lparr>range := Some (1000, 2000)\<rparr>) = []"
          "messages demo_history = []"
    by (simp_all add: demo_history_def)
  show ?thesis
    using deleteRange_guard [of demo_history demo_runtime demo_backend]
      deleteRange_guard [of "demo_history\<lparr>range := Some (1000, 2000)\<rparr>" demo_runtime demo_backend
        1000 2000 "asc ''1970-01-01T00:00:01.000Z''" "asc ''1970-01-01T00:00:02.000Z''" 1]
      m s e d r l i
    by auto
qed
section \<open>The fields of a request\<close>

text \<open>
  Claim C7 says that a popup request consists of exactly an identifier, a message, an
  optional list of options and an optional project path. If so, two requests with the
  same four values are the same request; they need not be: \<open>McpRequest\<close> has the
  optional flag \<open>chalkboard\<close> as well.
\<close>

theorem request_four_fields_counterexample:
  "req_id demo_request = req_id demo_request_chalkboard
   \<and> req_message demo_request = req_message demo_request_chalkboard
   \<and> menu demo_request = menu demo_request_chalkboard
   \<and> project_root_path demo_request = project_root_path demo_request_chalkboard
   \<and> demo_request \<noteq> demo_request_chalkboard"
  by (simp add: demo_request_chalkboard_def demo_request_def)

text \<open>
  Claim C7, amended. A popup request consists of an identifier, a message, an optional
  list of options, an optional project path and one boolean flag: the optional
  \<open>chalkboard\<close> of \<open>McpRequest\<close>, the required \<open>is_markdown\<close> of the history tab's
  \<open>PopupRequest\<close>. Two requests are equal exactly when these five values are.
\<close>

theorem request_five_fields:
  "((r :: McpRequest) = r' \<longleftrightarrow>
      req_id r = req_id r' \<and> req_message r = req_message r' \<and> menu r = menu r'
      \<and> chalkboard r = chalkboard r' \<and> project_root_path r = project_root_path r')
   \<and> ((p :: PopupRequest) = p' \<longleftrightarrow>
      preq_id p = preq_id p' \<and> preq_message p = preq_message p'
      \<and> predefined_options p = predefined_options p' \<and> is_markdown p = is_markdown p'
      \<and> preq_project_root_path p = preq_project_root_path p')"
  by auto

theorem request_five_fields_witness:
  "chalkboard demo_request \<noteq> chalkboard demo_request_chalkboard
   \<and> demo_request \<noteq> demo_request_chalkboard
   \<and> demo_request = demo_request_chalkboard\<lparr>chalkboard := None\<rparr>"
  using request_five_fields [of demo_request demo_request_chalkboard]
    request_five_fields [of demo_request "demo_request_chalkboard\<lparr>chalkboard := None\<rparr>"]
  by (simp add: demo_request_chalkboard_def demo_request_def)

section \<open>Toggling a conditional prompt\<close>

lemma find_setCurrentState:
  "find (\<lambda>p. prompt_id p = promptId) ps = Some p \<Longrightarrow>
   find (\<lambda>p. prompt_id p = promptId) (setCurrentState promptId v ps)
     = Some (p\<lparr>current_state := Some v\<rparr>)"
  by (induction ps) (auto split: if_splits)

lemma setCurrentState_twice:
  "setCurrentState promptId w (setCurrentState promptId v ps) = setCurrentState promptId w ps"
  by (induction ps) auto

lemma setCurrentState_same:
  "find (\<lambda>p. prompt_id p = promptId) ps = Some p \<Longrightarrow> current_state p = Some v \<Longrightarrow>
   setCurrentState promptId v ps = ps"
  by (induction ps) (auto split: if_splits)

text \<open>
  What \<open>handleConditionalToggle\<close> does to the prompt it finds: it sets
  \<open>current_state\<close> to the new value; on success it stays the requested value; when the
  backend save fails it becomes the negation of the new value. That is the state before
  the toggle whenever that state was defined and the toggle requested its negation, and
  then the prompt list is what it was; in any case the switch, which shows
  \<open>current_state ?? false\<close> and requests the negation of what it shows, shows what it
  showed before.
\<close>

lemma toggle_sets_then_negates:
  assumes "promptWithId promptId st = Some p"
  shows "(update_conditional_prompt_state be promptId v = Inr u \<longrightarrow>
            promptWithId promptId (finalState (handleConditionalToggle be promptId v st))
              = Some (p\<lparr>current_state := Some v\<rparr>))
         \<and> (update_conditional_prompt_state be promptId v = Inl e \<longrightarrow>
            promptWithId promptId (finalState (handleConditionalToggle be promptId v st))
              = Some (p\<lparr>current_state := Some (\<not> v)\<rparr>)
            \<and> (v = (\<not> displayedState p) \<longrightarrow>
                 displayedState (p\<lparr>current_state := Some (\<not> v)\<rparr>) = displayedState p)
            \<and> (current_state p = Some (\<not> v) \<longrightarrow>
                 customPrompts (finalState (handleConditionalToggle be promptId v st))
                   = customPrompts st))"
  using assms
  by (auto simp: promptWithId_def handleConditionalToggle_def invoke_def notify_def report_def
      Let_def find_setCurrentState setCurrentState_twice setCurrentState_same displayedState_def
      split: option.splits)

lemma toggle_sets_then_negates_example:
  "promptWithId (asc ''p1'') demo_input_off = Some demo_prompt_off
   \<and> promptWithId (asc ''p1'')
        (finalState (handleConditionalToggle demo_backend (asc ''p1'') True demo_input_off))
       = Some (demo_prompt_off\<lparr>current_state := Some True\<rparr>)
   \<and> promptWithId (asc ''p1'')
        (finalState (handleConditionalToggle failing_backend (asc ''p1'') True demo_input_off))
       = Some demo_prompt_off
   \<and> customPrompts
        (finalState (handleConditionalToggle failing_backend (asc ''p1'') True demo_input_off))
       = customPrompts demo_input_off"
proof -
  have p: "promptWithId (asc ''p1'') demo_input_off = Some demo_prompt_off"
    by (simp add: promptWithId_def demo_input_off_def demo_prompt_off_def demo_prompt_def)
  have s: "update_conditional_prompt_state demo_backend (asc ''p1'') True = Inr ()"
    by (simp add: demo_backend_def)
  have f: "update_conditional_prompt_state failing_backend (asc ''p1'') True = Inl demo_error"
    by (simp add: failing_backend_def)
  have c: "current_state demo_prompt_off = Some (\<not> True)"
          "demo_prompt_off\<lparr>current_state := Some (\<not> True)\<rparr> = demo_prompt_off"
    by (simp_all add: demo_prompt_off_def)
  show ?thesis
    using toggle_sets_then_negates [OF p, of demo_backend True "()" demo_error]
      toggle_sets_then_negates [OF p, of failing_backend True "()" demo_error] p s f c
    by simp
qed

section \<open>The responses of the popup\<close>

lemma responses_sendResponse:
  "responses (sendResponse be props a b c r st) = responses st
   \<or> responses (sendResponse be props a b c r st) = responses st @ [r]"
  by (simp add: sendResponse_def notify_def report_def invoke_def Let_def split: sum.splits)

lemma newResponses_send:
  "x \<in> set (drop (length (responses st))
               (responses (sendResponse be props a b c r (st\<lparr>submitting := True\<rparr>)))) \<Longrightarrow>
   x = r"
  using responses_sendResponse [of be props a b c r "st\<lparr>submitting := True\<rparr>"] by auto

text \<open>
  Claim C3 says that the note of every emitted response is \<open>null\<close> when the trimmed
  text is empty. That is how submit builds it; enhance sends its instruction text and
  continue the configured prompt, whatever the text: with an empty text the response of
  enhance carries the enhance prompt around an empty instruction.
\<close>

theorem response_note_counterexample:
  "trim (popup_note (popupC mounted)) = []
   \<and> map dish_note
        (newResponses (popupC mounted)
           (handleEnhance demo_runtime demo_backend demo_props (popupC mounted)))
       = [Some (enhance_prefix @ enhance_suffix)]"
  by (simp add: newResponses_def handleEnhance_def sendResponse_def enhanceResponse_def
      demo_props_def mounted_def notify_def trim_def)

text \<open>
  Claim C3, amended. Every response emitted by submit, continue or enhance is a record
  of a note, the toppings, the ingredients (each holding a \<open>spice_id\<close>) and a ticket
  with the creation time \<open>cooked_at\<close>, the request id \<open>ticket_id\<close> (\<open>null\<close> when
  the request or its id is missing) and the station \<open>popup\<close>, \<open>popup_continue\<close> or
  \<open>popup_enhance\<close>. For submit the note is the trimmed text, or \<open>null\<close> when that
  is empty (the default confirmation text when the toppings and ingredients are empty as
  well), the toppings are the chosen options and the ingredients the non-empty spice ids.
  For continue the note is the configured continue prompt, for enhance the enhance
  instruction around the trimmed text; both have no toppings and no ingredients.
\<close>

theorem emitted_response_shape:
  "(\<forall>r \<in> set (newResponses st (handleSubmit rt be props st)).
      dish_note r =
        (if trim (popup_note st) \<noteq> [] then Some (trim (popup_note st))
         else if popup_toppings st = [] \<and> filter (\<lambda>s. s \<noteq> []) (spiceIds st) = []
         then Some txt_default_note else None)
      \<and> toppings r = popup_toppings st
      \<and> map spice_id (ingredients r) = filter (\<lambda>s. s \<noteq> []) (spiceIds st)
      \<and> ticket r =
          \<lparr>cooked_at = Some (isoDigits rt (dateNow rt) @ asc ''Z''),
           ticket_id = (case props_request props of
                          None \<Rightarrow> None
                        | Some q \<Rightarrow> if req_id q = [] then None else Some (req_id q)),
           station = Some (asc ''popup'')\<rparr>)
   \<and> (\<forall>r \<in> set (newResponses st (handleContinue rt be props st)).
      dish_note r = Some (continuePrompt st) \<and> toppings r = [] \<and> ingredients r = []
      \<and> ticket r =
          \<lparr>cooked_at = Some (isoDigits rt (dateNow rt) @ asc ''Z''),
           ticket_id = (case props_request props of
                          None \<Rightarrow> None
                        | Some q \<Rightarrow> if req_id q = [] then None else Some (req_id q)),
           station = Some (asc ''popup_continue'')\<rparr>)
   \<and> (\<forall>r \<in> set (newResponses st (handleEnhance rt be props st)).
      dish_note r = Some (enhance_prefix @ trim (popup_note st) @ enhance_suffix)
      \<and> toppings r = [] \<and> ingredients r = []
      \<and> ticket r =
          \<lparr>cooked_at = Some (isoDigits rt (dateNow rt) @ asc ''Z''),
           ticket_id = (case props_request props of
                          None \<Rightarrow> None
                        | Some q \<Rightarrow> if req_id q = [] then None else Some (req_id q)),
           station = Some (asc ''popup_enhance'')\<rparr>)"
proof -
  have sub: "r = withDefaultNote (submitResponse rt props st)"
    if "r \<in> set (newResponses st (handleSubmit rt be props st))" for r
    using that
    by (auto simp: newResponses_def handleSubmit_def split: if_splits dest!: newResponses_send)
  have con: "r = continueResponse rt props st"
    if "r \<in> set (newResponses st (handleContinue rt be props st))" for r
    using that
    by (auto simp: newResponses_def handleContinue_def split: if_splits dest!: newResponses_send)
  have enh: "r = enhanceResponse rt props st"
    if "r \<in> set (newResponses st (handleEnhance rt be props st))" for r
    using that
    by (auto simp: newResponses_def handleEnhance_def split: if_splits dest!: newResponses_send)
  show ?thesis
    by (auto dest!: sub con enh
        simp: withDefaultNote_def submitResponse_def isEmptyResponse_def truthy_def
        truthyOpt_def ticketFor_def comp_def continueResponse_def enhanceResponse_def
        split: option.splits)
qed

theorem emitted_response_shape_witness:
  "(\<exists>r. newResponses demo_popup (handleSubmit demo_runtime demo_backend demo_props demo_popup) = [r]
        \<and> dish_note r = Some (asc ''ship it'') \<and> toppings r = [asc ''yes'']
        \<and> map spice_id (ingredients r) = [asc ''spice-3'']
        \<and> ticket_id (ticket r) = Some (asc ''req-1'')
        \<and> station (ticket r) = Some (asc ''popup''))
   \<and> (\<exists>r. newResponses demo_popup (handleContinue demo_runtime demo_backend demo_props demo_popup)
             = [r]
        \<and> dish_note r = Some txt_default_continue \<and> toppings r = [] \<and> ingredients r = []
        \<and> station (ticket r) = Some (asc ''popup_continue''))
   \<and> (\<exists>r. newResponses demo_popup (handleEnhance demo_runtime demo_backend demo_props demo_popup)
             = [r]
        \<and> dish_note r = Some (enhance_prefix @ asc ''ship it'' @ enhance_suffix)
        \<and> toppings r = [] \<and> ingredients r = []
        \<and> station (ticket r) = Some (asc ''popup_enhance''))"
proof -
  have t: "trim (popup_note demo_popup) = asc ''ship it''"
    by (simp add: demo_popup_def trim_def isWhiteSpace_def asc_def)
  have f: "popup_toppings demo_popup = [asc ''yes'']" "spiceIds demo_popup = [asc ''spice-3'']"
    "continuePrompt demo_popup = txt_default_continue" "responses demo_popup = []"
    "\<not> submitting demo_popup"
    "props_request demo_props = Some demo_request" "mockMode demo_props"
    "req_id demo_request = asc ''req-1''" "menu demo_request = Some [asc ''yes'', asc ''no'']"
    by (simp_all add: demo_popup_def mounted_def demo_props_def demo_request_def)
  have n: "asc ''ship it'' \<noteq> []" "asc ''spice-3'' \<noteq> []" "asc ''req-1'' \<noteq> []"
    by (simp_all add: asc_def)
  have s: "newResponses demo_popup (handleSubmit demo_runtime demo_backend demo_props demo_popup)
           = [withDefaultNote (submitResponse demo_runtime demo_props demo_popup)]"
    using t f n
    by (simp add: newResponses_def handleSubmit_def canSubmit_def hasOptions_def
        sendResponse_def notify_def)
  have c: "newResponses demo_popup (handleContinue demo_runtime demo_backend demo_props demo_popup)
           = [continueResponse demo_runtime demo_props demo_popup]"
    using f by (simp add: newResponses_def handleContinue_def sendResponse_def notify_def)
  have e: "newResponses demo_popup (handleEnhance demo_runtime demo_backend demo_props demo_popup)
           = [enhanceResponse demo_runtime demo_props demo_popup]"
    using f by (simp add: newResponses_def handleEnhance_def sendResponse_def notify_def)
  show ?thesis
    using emitted_response_shape [of demo_popup demo_runtime demo_backend demo_props] s c e t f n
    by simp
qed

section \<open>Errors of backend calls\<close>




















section \<open>The invariant of the ingredient list\<close>

lemma inputInv_effects [simp]:
  "inputInv (notify n st) = inputInv st"
  "inputInv (report l st) = inputInv st"
  "inputInv (invoke c st) = inputInv st"
  by (simp_all add: inputInv_def notify_def report_def invoke_def)

lemma hasIngredient_effects [simp]:
  "hasIngredient sid (notify n st) = hasIngredient sid st"
  "hasIngredient sid (report l st) = hasIngredient sid st"
  "hasIngredient sid (invoke c st) = hasIngredient sid st"
  by (simp_all add: hasIngredient_def notify_def report_def invoke_def)

lemma inputInv_emitUpdate: "inputInv st \<Longrightarrow> inputInv (emitUpdate st)"
  by (auto simp: inputInv_def emitUpdate_def goodData_def)

lemma inputInv_push:
  "inputInv st \<Longrightarrow> \<not> hasIngredient sid st \<Longrightarrow> truthy sid \<Longrightarrow>
   inputInv (pushIngredient sid url st)"
  by (auto simp: inputInv_def pushIngredient_def hasIngredient_def truthy_def list_ex_iff)

lemma inputInv_addBlocks:
  "addBlocks br blocks n st = (n', st') \<Longrightarrow> inputInv st \<Longrightarrow> inputInv st'"
proof (induction br blocks n st rule: addBlocks.induct)
  case (1 br addedCount st)
  then show ?case by simp
next
  case (2 br block blocks addedCount st)
  then show ?case
    by (auto simp: inputInv_push split: option.splits if_splits)
qed

lemma inputInv_rust:
  "inputInv st \<Longrightarrow> inputInv (snd (addIngredientsFromRustClipboard br be silent st))"
  by (auto simp: addIngredientsFromRustClipboard_def Let_def inputInv_emitUpdate
      split: sum.splits prod.splits dest: inputInv_addBlocks)

lemma inputInv_files:
  "inputInv st \<Longrightarrow> inputInv (finalState (handleIngredientFiles br be fs st))"
proof (induction br be fs st rule: handleIngredientFiles.induct)
  case (1 br be st)
  then show ?case by simp
next
  case (2 br be f0 rest st)
  show ?case
  proof (cases "startsWith (file_type f0) (asc ''image/'')")
    case False
    with 2 show ?thesis by simp
  next
    case img: True
    show ?thesis
    proof (cases "arrayBuffer f0")
      case (Inl a)
      with 2 img show ?thesis by (simp add: fileFailed_def)
    next
      case (Inr bytes)
      show ?thesis
      proof (cases "stash_ingredient_bytes_cmd be bytes (file_type f0) (file_name f0)")
        case (Inl a)
        with 2 img Inr show ?thesis by (simp add: fileFailed_def Let_def)
      next
        case sid: (Inr sid)
        with 2 img Inr show ?thesis
          by (simp add: Let_def inputInv_push inputInv_emitUpdate)
      qed
    qed
  qed
qed

lemma inputInv_dataUrls:
  "addDataUrls rt br be urls n st = (n', st') \<Longrightarrow> inputInv st \<Longrightarrow> inputInv st'"
proof (induction rt br be urls n st rule: addDataUrls.induct)
  case (1 rt br be addedCount st)
  then show ?case by simp
next
  case (2 rt br be dataUrl rest addedCount st)
  show ?case
  proof (cases "fetchBlob br dataUrl")
    case (Inl a)
    with 2 show ?thesis by simp
  next
    case (Inr blob)
    define dishType where
      "dishType = (if truthy (blob_type blob) then blob_type blob else asc ''image/png'')"
    define tag where
      "tag = asc ''pasted-'' @ showInt (dateNow rt) @ asc ''.''
             @ guessFileExtensionFromMime rt dishType"
    define st1 where
      "st1 = invoke (Stash_ingredient_bytes_cmd (blob_bytes blob) dishType tag) st"
    have inv1: "inputInv st1"
      using "2.prems" by (simp add: st1_def)
    show ?thesis
    proof (cases "stash_ingredient_bytes_cmd be (blob_bytes blob) dishType tag")
      case (Inl e)
      have "addDataUrls rt br be rest addedCount
              (report (ConsoleDebug txt_html_paste_failed e) st1) = (n', st')"
        using "2.prems"(1) Inr Inl
        by (simp add: Let_def dishType_def tag_def st1_def)
      with "2.IH"(2) [OF Inr dishType_def tag_def st1_def Inl] inv1 show ?thesis
        by simp
    next
      case sid: (Inr sid)
      show ?thesis
      proof (cases "\<not> truthy sid")
        case True
        have "addDataUrls rt br be rest addedCount st1 = (n', st')"
          using "2.prems"(1) Inr sid True
          by (simp add: Let_def dishType_def tag_def st1_def)
        with "2.IH"(3) [OF Inr dishType_def tag_def st1_def sid True] inv1 show ?thesis
          by simp
      next
        case t: False
        show ?thesis
        proof (cases "hasIngredient sid st1")
          case True
          have "addDataUrls rt br be rest addedCount st1 = (n', st')"
            using "2.prems"(1) Inr sid t True
            by (simp add: Let_def dishType_def tag_def st1_def)
          with "2.IH"(4) [OF Inr dishType_def tag_def st1_def sid t True] inv1 show ?thesis
            by simp
        next
          case False
          have "addDataUrls rt br be rest (addedCount + 1)
                  (pushIngredient sid (createObjectURL br (blob_bytes blob)) st1) = (n', st')"
            using "2.prems"(1) Inr sid t False
            by (simp add: Let_def dishType_def tag_def st1_def)
          with "2.IH"(5) [OF Inr dishType_def tag_def st1_def sid t False] inv1 t False
          show ?thesis
            by (simp add: inputInv_push)
        qed
      qed
    qed
  qed
qed

lemma inputInv_navigator:
  "readIngredientsFromNavigatorClipboard rt br st = (fs, st') \<Longrightarrow> inputInv st \<Longrightarrow> inputInv st'"
proof -
  assume r: "readIngredientsFromNavigatorClipboard rt br st = (fs, st')" and i: "inputInv st"
  have "st' = st \<or> (\<exists>e. st' = report (ConsoleDebug txt_clipboard_debug e) st)"
    using r
    by (cases "clipboardRead br")
       (auto simp: readIngredientsFromNavigatorClipboard_def split: sum.splits prod.splits option.splits)
  with i show "inputInv st'" by auto
qed

lemma inputInv_paste:
  "inputInv st \<Longrightarrow> inputInv (finalState (completion (handleIngredientPaste rt br be ev st)))"
proof -
  assume i: "inputInv st"
  show ?thesis
  proof (cases "defaultPrevented ev")
    case True
    with i show ?thesis by (simp add: handleIngredientPaste_def)
  next
    case np: False
    show ?thesis
    proof (cases "clipboardData ev")
      case None
      with i np show ?thesis by (simp add: handleIngredientPaste_def)
    next
      case (Some cd)
      consider (files) "attachedImages cd \<noteq> []"
        | (html) "attachedImages cd = []" "htmlDataUrls br (text_html cd) \<noteq> []"
        | (plain) "attachedImages cd = []" "htmlDataUrls br (text_html cd) = []"
            "text_plain cd \<noteq> []"
        | (os) "attachedImages cd = []" "htmlDataUrls br (text_html cd) = []"
            "text_plain cd = []"
        by blast
      then show ?thesis
      proof cases
        case files
        with i np Some show ?thesis
          by (simp add: handleIngredientPaste_def inputInv_files)
      next
        case html
        obtain n st1 where a: "addDataUrls rt br be (htmlDataUrls br (text_html cd)) 0 st = (n, st1)"
          by (cases "addDataUrls rt br be (htmlDataUrls br (text_html cd)) 0 st") auto
        then have "inputInv st1" using i inputInv_dataUrls by blast
        with np Some html a show ?thesis
          by (simp add: handleIngredientPaste_def inputInv_emitUpdate)
      next
        case plain
        with i np Some show ?thesis
          by (simp add: handleIngredientPaste_def inputInv_rust)
      next
        case os
        obtain fs st1 where a: "readIngredientsFromNavigatorClipboard rt br st = (fs, st1)"
          by (cases "readIngredientsFromNavigatorClipboard rt br st") auto
        then have "inputInv st1" using i inputInv_navigator by blast
        with np Some os a show ?thesis
          by (simp add: handleIngredientPaste_def inputInv_files inputInv_rust)
      qed
    qed
  qed
qed

lemma set_remove_at: "set (take k xs @ drop (Suc k) xs) \<subseteq> set xs"
  using set_take_subset [of k xs] set_drop_subset [of "Suc k" xs] by auto

lemma distinct_remove_at:
  "distinct (map f xs) \<Longrightarrow> distinct (map f (take k xs @ drop (Suc k) xs))"
proof (induction xs arbitrary: k)
  case Nil
  then show ?case by simp
next
  case (Cons x xs)
  show ?case
  proof (cases k)
    case 0
    with Cons.prems show ?thesis by simp
  next
    case (Suc j)
    have n: "f x \<notin> set (map f (take j xs @ drop (Suc j) xs))"
      using Cons.prems set_remove_at [of j xs] by auto
    have d: "distinct (map f (take j xs @ drop (Suc j) xs))"
      using Cons by simp
    have "map f (take k (x # xs) @ drop (Suc k) (x # xs))
          = f x # map f (take j xs @ drop (Suc j) xs)"
      using Suc by simp
    with n d show ?thesis by (simp only: distinct.simps) simp
  qed
qed

lemma inputInv_remove: "inputInv st \<Longrightarrow> inputInv (removeIngredient i st)"
proof -
  assume i: "inputInv st"
  let ?k = "spliceStart i (length (input_ingredients st))"
  let ?st1 = "st\<lparr>input_ingredients :=
                 take ?k (input_ingredients st) @ drop (Suc ?k) (input_ingredients st)\<rparr>"
  have "inputInv ?st1"
    using i distinct_remove_at [of spiceId "input_ingredients st" ?k]
      set_remove_at [of ?k "input_ingredients st"]
    by (auto simp: inputInv_def)
  then show ?thesis
    by (simp add: removeIngredient_def Let_def inputInv_emitUpdate)
qed

lemma discardAll_fields:
  "input_ingredients (discardAll bs st) = input_ingredients st"
  "emitted (discardAll bs st) = emitted st"
  by (induction bs st rule: discardAll.induct) (simp_all add: invoke_def)

lemma inputInv_reset: "inputInv st \<Longrightarrow> inputInv (reset st)"
proof -
  assume i: "inputInv st"
  have "inputInv ((discardAll (input_ingredients st) (st\<lparr>input_note := [], input_toppings := []\<rparr>))
        \<lparr>input_ingredients := []\<rparr>)"
    using i by (simp add: inputInv_def discardAll_fields)
  then show ?thesis by (simp add: reset_def inputInv_emitUpdate)
qed

lemma inputInv_fields [simp]:
  "inputInv (st\<lparr>input_note := n\<rparr>) = inputInv st"
  "inputInv (st\<lparr>input_toppings := ts\<rparr>) = inputInv st"
  "inputInv (st\<lparr>customPrompts := ps\<rparr>) = inputInv st"
  "inputInv (st\<lparr>sortablePrompts := ps\<rparr>) = inputInv st"
  "inputInv (st\<lparr>customPromptEnabled := b\<rparr>) = inputInv st"
  "inputInv (st\<lparr>showInsertDialog := b\<rparr>) = inputInv st"
  "inputInv (st\<lparr>pendingPromptContent := n\<rparr>) = inputInv st"
  by (simp_all add: inputInv_def)

lemma inputInv_insert: "inputInv st \<Longrightarrow> inputInv (insertPromptContent c mode st)"
  by (cases mode) (simp_all add: insertPromptContent_def inputInv_emitUpdate)

lemma inputInv_load: "inputInv st \<Longrightarrow> inputInv (loadCustomPrompts be st)"
  by (simp add: loadCustomPrompts_def Let_def split: sum.splits option.splits)

lemma inputInv_simple:
  assumes "inputInv st"
  shows "inputInv (handleOptionChange option checked st)"
    and "inputInv (handleOptionToggle option st)"
    and "inputInv (inputNote s st)"
    and "inputInv (updateData n ts st)"
    and "inputInv (handlePromptClick p st)"
    and "inputInv (handleQuoteMessage s st)"
    and "inputInv (handleInsertMode mode st)"
    and "inputInv (finalState (savePromptOrder be st))"
    and "inputInv (finalState (handleConditionalToggle be promptId v st))"
proof -
  show "inputInv (handleOptionChange option checked st)"
    using assms by (simp add: handleOptionChange_def inputInv_emitUpdate)
  show "inputInv (handleOptionToggle option st)"
    using assms by (simp add: handleOptionToggle_def inputInv_emitUpdate)
  show "inputInv (inputNote s st)"
    using assms by (simp add: inputNote_def inputInv_emitUpdate)
  show "inputInv (updateData n ts st)"
    using assms by (simp add: updateData_def Let_def inputInv_emitUpdate split: option.splits)
  show "inputInv (handlePromptClick p st)"
    using assms by (simp add: handlePromptClick_def inputInv_emitUpdate inputInv_insert)
  show "inputInv (handleQuoteMessage s st)"
    using assms by (simp add: handleQuoteMessage_def inputInv_insert)
  show "inputInv (handleInsertMode mode st)"
    using assms by (simp add: handleInsertMode_def inputInv_insert)
  show "inputInv (finalState (savePromptOrder be st))"
  proof (cases "update_custom_prompt_order be (map prompt_id (sortablePrompts st))")
    case (Inl e)
    then show ?thesis using assms by (simp add: savePromptOrder_def Let_def inputInv_load)
  next
    case (Inr u)
    then show ?thesis using assms by (simp add: savePromptOrder_def Let_def)
  qed
  show "inputInv (finalState (handleConditionalToggle be promptId v st))"
  proof (cases "update_conditional_prompt_state be promptId v")
    case (Inl e)
    then show ?thesis using assms by (simp add: handleConditionalToggle_def Let_def)
  next
    case (Inr u)
    then show ?thesis using assms by (simp add: handleConditionalToggle_def Let_def)
  qed
qed

lemma foldl_update_inv:
  "list_all goodData ds \<Longrightarrow> [] \<notin> set (spiceIds p) \<Longrightarrow>
   [] \<notin> set (spiceIds (foldl (\<lambda>q data. handleInputUpdate data q) p ds))"
proof (induction ds arbitrary: p)
  case Nil
  then show ?case by simp
next
  case (Cons d ds)
  have "[] \<notin> set (spiceIds (handleInputUpdate d p))"
    using Cons.prems(1) by (auto simp: handleInputUpdate_def goodData_def split: option.splits)
  with Cons show ?case by simp
qed

lemma deliver_inv:
  "inputInv after \<Longrightarrow> [] \<notin> set (spiceIds p) \<Longrightarrow>
   [] \<notin> set (spiceIds (deliver before after p))"
proof -
  assume i: "inputInv after" and p: "[] \<notin> set (spiceIds p)"
  have "list_all goodData (drop (length (emitted before)) (emitted after))"
    using i set_drop_subset [of "length (emitted before)" "emitted after"]
    by (auto simp: inputInv_def list_all_iff)
  then show ?thesis
    unfolding deliver_def using p by (rule foldl_update_inv)
qed

lemma viaInput_inv:
  "popupInv sys \<Longrightarrow> inputInv (f (inputC sys)) \<Longrightarrow> popupInv (viaInput f sys)"
  by (simp add: popupInv_def viaInput_def deliver_inv)

lemma viaPopup_inv:
  "popupInv sys \<Longrightarrow> [] \<notin> set (spiceIds (f (popupC sys))) \<Longrightarrow> popupInv (viaPopup f sys)"
  by (simp add: popupInv_def viaPopup_def)

lemma spiceIds_sendResponse [simp]:
  "spiceIds (sendResponse be props a b c r st) = spiceIds st"
  by (simp add: sendResponse_def notify_def report_def invoke_def Let_def split: sum.splits)

lemma spiceIds_actions [simp]:
  "spiceIds (finalState (handleSubmit rt be props p)) = spiceIds p"
  "spiceIds (finalState (handleContinue rt be props p)) = spiceIds p"
  "spiceIds (finalState (handleEnhance rt be props p)) = spiceIds p"
  by (simp_all add: handleSubmit_def handleContinue_def handleEnhance_def)

lemma step_inv:
  assumes i: "popupInv sys"
  shows "popupInv (step a sys)"
proof -
  have inp: "inputInv (inputC sys)" and pp: "[] \<notin> set (spiceIds (popupC sys))"
    using i by (simp_all add: popupInv_def)
  note vi = viaInput_inv [OF i]
  note vp = viaPopup_inv [OF i]
  show ?thesis
  proof (cases a)
    case (InputNote s)
    then show ?thesis by (simp add: vi inputInv_simple [OF inp])
  next
    case (OptionChange option checked)
    then show ?thesis by (simp add: vi inputInv_simple [OF inp])
  next
    case (OptionToggle option)
    then show ?thesis by (simp add: vi inputInv_simple [OF inp])
  next
    case (Paste rt br be ev)
    then show ?thesis by (simp add: vi inputInv_paste [OF inp])
  next
    case (RemoveIngredient index)
    then show ?thesis by (simp add: vi inputInv_remove [OF inp])
  next
    case (PromptClick p)
    then show ?thesis by (simp add: vi inputInv_simple [OF inp])
  next
    case (QuoteMessage m)
    then show ?thesis by (simp add: vi inputInv_simple [OF inp])
  next
    case (InsertMode mode)
    then show ?thesis by (simp add: vi inputInv_simple [OF inp])
  next
    case (ConditionalToggle be promptId v)
    then show ?thesis by (simp add: vi inputInv_simple [OF inp])
  next
    case (LoadCustomPrompts be)
    then show ?thesis by (simp add: vi inputInv_load [OF inp])
  next
    case (SavePromptOrder be)
    then show ?thesis by (simp add: vi inputInv_simple [OF inp])
  next
    case (TelegramOptionToggled option)
    let ?ts = "toggleOption option (popup_toppings (popupC sys))"
    let ?s1 = "viaPopup (\<lambda>p. p\<lparr>popup_toppings := ?ts\<rparr>) sys"
    have 1: "popupInv ?s1"
      using pp by (simp add: vp)
    have "inputInv (updateData None (Some ?ts) (inputC ?s1))"
      using inp by (simp add: viaPopup_def inputInv_simple)
    with 1 have "popupInv (viaInput (updateData None (Some ?ts)) ?s1)"
      by (rule viaInput_inv)
    then show ?thesis
      using TelegramOptionToggled by (simp add: popupOptionToggle_def Let_def)
  next
    case (TelegramTextUpdated t)
    let ?s1 = "viaPopup (\<lambda>p. p\<lparr>popup_note := t\<rparr>) sys"
    have 1: "popupInv ?s1"
      using pp by (simp add: vp)
    have "inputInv (updateData (Some t) None (inputC ?s1))"
      using inp by (simp add: viaPopup_def inputInv_simple)
    with 1 have "popupInv (viaInput (updateData (Some t) None) ?s1)"
      by (rule viaInput_inv)
    then show ?thesis
      using TelegramTextUpdated by (simp add: popupTextUpdate_def)
  next
    case RequestChanged
    let ?s1 = "viaPopup (\<lambda>p. p\<lparr>popup_toppings := [], popup_note := [], spiceIds := []\<rparr>) sys"
    have 1: "popupInv ?s1"
      by (simp add: vp)
    have "inputInv (reset (inputC ?s1))"
      using inp by (simp add: viaPopup_def inputInv_reset)
    with 1 have 2: "popupInv (viaInput reset ?s1)"
      by (rule viaInput_inv)
    then have "[] \<notin> set (spiceIds (popupC (viaInput reset ?s1)))"
      by (simp add: popupInv_def)
    then have "popupInv (viaPopup (\<lambda>p. p\<lparr>submitting := False\<rparr>) (viaInput reset ?s1))"
      using viaPopup_inv [OF 2, of "\<lambda>p. p\<lparr>submitting := False\<rparr>"] by simp
    then show ?thesis
      using RequestChanged by (simp add: resetForm_def)
  next
    case (ReplyConfig en p)
    then show ?thesis using pp by (simp add: vp)
  next
    case (Submit rt be props)
    then show ?thesis using pp by (simp add: vp)
  next
    case (Continue rt be props)
    then show ?thesis using pp by (simp add: vp)
  next
    case (Enhance rt be props)
    then show ?thesis using pp by (simp add: vp)
  qed
qed

lemma foldl_step_inv:
  "popupInv sys \<Longrightarrow> popupInv (foldl (\<lambda>sys a. step a sys) sys acts)"
  by (induction acts arbitrary: sys) (simp_all add: step_inv)

lemma popupInv_mounted: "popupInv mounted"
  by (simp add: popupInv_def inputInv_def mounted_def)

lemma run_inv: "popupInv (run acts)"
  unfolding run_def using popupInv_mounted by (rule foldl_step_inv)

section \<open>Deduplication of pasted images and the submit guard\<close>

lemma demo_paste_once:
  "input_ingredients (inputC (run [Paste demo_runtime demo_browser demo_backend demo_paste]))
     = [\<lparr>spiceId = asc ''spice-4'', previewUrl = asc ''blob:preview-4''\<rparr>]
   \<and> spiceIds (popupC (run [Paste demo_runtime demo_browser demo_backend demo_paste]))
     = [asc ''spice-4'']
   \<and> popup_note (popupC (run [Paste demo_runtime demo_browser demo_backend demo_paste])) = []
   \<and> popup_toppings (popupC (run [Paste demo_runtime demo_browser demo_backend demo_paste])) = []"
  by (simp add: run_def mounted_def viaInput_def deliver_def handleIngredientPaste_def
      demo_paste_def attachedImages_def demo_file_def startsWith_def asc_def
      demo_backend_def demo_browser_def invoke_def notify_def emitUpdate_def
      generateConditionalContent_def hasIngredient_def pushIngredient_def truthy_def
      handleInputUpdate_def digits.simps Let_def)

lemma ingredients_effects [simp]:
  "input_ingredients (notify m st) = input_ingredients st"
  "input_ingredients (report l st) = input_ingredients st"
  "input_ingredients (invoke c st) = input_ingredients st"
  "input_ingredients (emitUpdate st) = input_ingredients st"
  by (simp_all add: notify_def report_def invoke_def emitUpdate_def)

lemma addBlocks_known:
  "hasIngredient sid st \<Longrightarrow> block_spice_id b = Some sid \<Longrightarrow>
   input_ingredients (snd (addBlocks br [b] n st)) = input_ingredients st"
  by (simp split: option.splits)

lemma files_known:
  "hasIngredient sid st \<Longrightarrow> startsWith (file_type f) (asc ''image/'') \<Longrightarrow>
   arrayBuffer f = Inr bytes \<Longrightarrow>
   stash_ingredient_bytes_cmd be bytes (file_type f) (file_name f) = Inr sid \<Longrightarrow>
   input_ingredients (finalState (handleIngredientFiles br be [f] st)) = input_ingredients st"
  by (simp add: Let_def)

lemma dataUrls_known:
  "hasIngredient sid st \<Longrightarrow> fetchBlob br url = Inr blob \<Longrightarrow>
   stash_ingredient_bytes_cmd be (blob_bytes blob)
     (if truthy (blob_type blob) then blob_type blob else asc ''image/png'')
     (asc ''pasted-'' @ showInt (dateNow rt) @ asc ''.''
      @ guessFileExtensionFromMime rt
          (if truthy (blob_type blob) then blob_type blob else asc ''image/png'')) = Inr sid \<Longrightarrow>
   input_ingredients (snd (addDataUrls rt br be [url] n st)) = input_ingredients st"
  by (simp add: Let_def)

text \<open>
  Claim C2. Pasted images are deduplicated by their spice id. On each of the three add
  paths (the files, the blocks of the backend's clipboard read, the data URLs of pasted
  HTML) an image whose spice id is already in the ingredient list leaves the list as it
  is; and in every state the mounted popup can reach, through any sequence of pastes,
  removals and other actions, the spice ids of the ingredient list are pairwise distinct.
\<close>

theorem ingredient_ids_distinct:
  "distinct (map spiceId (input_ingredients (inputC (run acts))))
   \<and> (hasIngredient sid st \<and> startsWith (file_type f) (asc ''image/'')
        \<and> arrayBuffer f = Inr bytes
        \<and> stash_ingredient_bytes_cmd be bytes (file_type f) (file_name f) = Inr sid \<longrightarrow>
        input_ingredients (finalState (handleIngredientFiles br be [f] st))
          = input_ingredients st)
   \<and> (hasIngredient sid st \<and> block_spice_id b = Some sid \<longrightarrow>
        input_ingredients (snd (addBlocks br [b] n st)) = input_ingredients st)
   \<and> (hasIngredient sid st \<and> fetchBlob br url = Inr blob
        \<and> stash_ingredient_bytes_cmd be (blob_bytes blob)
             (if truthy (blob_type blob) then blob_type blob else asc ''image/png'')
             (asc ''pasted-'' @ showInt (dateNow rt) @ asc ''.''
              @ guessFileExtensionFromMime rt
                  (if truthy (blob_type blob) then blob_type blob else asc ''image/png''))
            = Inr sid \<longrightarrow>
        input_ingredients (snd (addDataUrls rt br be [url] n st)) = input_ingredients st)"
  using run_inv [of acts] files_known [of sid st f bytes be br]
    addBlocks_known [of sid st b br n] dataUrls_known [of sid st br url blob be rt n]
  by (simp add: popupInv_def inputInv_def)

theorem ingredient_ids_distinct_witness:
  "hasIngredient (asc ''spice-4'') pasted_input
   \<and> input_ingredients
        (finalState (handleIngredientFiles demo_browser demo_backend [demo_file] pasted_input))
       = input_ingredients pasted_input
   \<and> input_ingredients (snd (addBlocks demo_browser [demo_block] 0 pasted_input))
       = input_ingredients pasted_input
   \<and> input_ingredients
        (snd (addDataUrls demo_runtime html_browser demo_backend
                [asc ''data:image/png;base64,iVBORw==''] 0 pasted_input))
       = input_ingredients pasted_input
   \<and> distinct (map spiceId (input_ingredients (inputC
        (run [Paste demo_runtime demo_browser demo_backend demo_paste,
              Paste demo_runtime demo_browser demo_backend demo_paste,
              RemoveIngredient 0,
              Paste demo_runtime demo_browser demo_backend demo_paste]))))"
proof -
  let ?blob = "\<lparr>blob_type = asc ''image/png'', blob_bytes = [137, 80, 78, 71]\<rparr>"
  have h: "hasIngredient (asc ''spice-4'') pasted_input"
    using demo_paste_once by (simp add: pasted_input_def hasIngredient_def)
  have f: "startsWith (file_type demo_file) (asc ''image/'')"
    "arrayBuffer demo_file = Inr [137, 80, 78, 71]"
    by (simp_all add: demo_file_def startsWith_def asc_def)
  have s: "stash_ingredient_bytes_cmd demo_backend [137, 80, 78, 71] ty tag
           = Inr (asc ''spice-4'')" for ty tag
    by (simp add: demo_backend_def digits.simps asc_def)
  have b: "block_spice_id demo_block = Some (asc ''spice-4'')"
    by (simp add: demo_block_def)
  have u: "fetchBlob html_browser (asc ''data:image/png;base64,iVBORw=='') = Inr ?blob"
    by (simp add: html_browser_def)
  have k: "blob_bytes ?blob = [137, 80, 78, 71]"
    by simp
  show ?thesis
    using ingredient_ids_distinct
      [where acts = "[Paste demo_runtime demo_browser demo_backend demo_paste,
                      Paste demo_runtime demo_browser demo_backend demo_paste,
                      RemoveIngredient 0,
                      Paste demo_runtime demo_browser demo_backend demo_paste]"
         and sid = "asc ''spice-4''" and st = pasted_input and f = demo_file
         and bytes = "[137, 80, 78, 71]" and be = demo_backend and br = demo_browser
         and b = demo_block and n = 0]
      ingredient_ids_distinct
      [where acts = "[]" and sid = "asc ''spice-4''" and st = pasted_input
         and br = html_browser and url = "asc ''data:image/png;base64,iVBORw==''"
         and blob = ?blob and be = demo_backend and rt = demo_runtime and n = 0]
      h f s b u
    by simp
qed


text \<open>
  Claim C8. Whenever submit proceeds, that is whenever \<open>canSubmit\<close> holds in a state the
  mounted popup can reach, the response built from that state has a note, a topping or
  an ingredient, so the branch that puts the default note into an empty response is not
  taken: the response sent is the response built.
\<close>

theorem submit_default_note_unreachable:
  "canSubmit props (popupC (run acts)) \<longrightarrow>
     (dish_note (submitResponse rt props (popupC (run acts))) \<noteq> None
      \<or> toppings (submitResponse rt props (popupC (run acts))) \<noteq> []
      \<or> ingredients (submitResponse rt props (popupC (run acts))) \<noteq> [])
     \<and> \<not> isEmptyResponse (submitResponse rt props (popupC (run acts)))
     \<and> withDefaultNote (submitResponse rt props (popupC (run acts)))
         = submitResponse rt props (popupC (run acts))"
proof
  let ?p = "popupC (run acts)"
  assume c: "canSubmit props ?p"
  have ids: "[] \<notin> set (spiceIds ?p)"
    using run_inv [of acts] by (simp add: popupInv_def)
  have f: "filter (\<lambda>t. 0 < length t) (spiceIds ?p) = spiceIds ?p"
    using ids by (induction "spiceIds ?p") (auto simp: filter_id_conv)
  from c have "popup_toppings ?p \<noteq> [] \<or> trim (popup_note ?p) \<noteq> [] \<or> spiceIds ?p \<noteq> []"
    by (auto simp: canSubmit_def split: if_splits)
  then have n: "dish_note (submitResponse rt props ?p) \<noteq> None
      \<or> toppings (submitResponse rt props ?p) \<noteq> []
      \<or> ingredients (submitResponse rt props ?p) \<noteq> []"
    using f by (auto simp: submitResponse_def truthy_def)
  then have e: "\<not> isEmptyResponse (submitResponse rt props ?p)"
    by (auto simp: isEmptyResponse_def truthyOpt_def submitResponse_def truthy_def
        split: option.splits if_splits)
  from n e show "(dish_note (submitResponse rt props ?p) \<noteq> None
      \<or> toppings (submitResponse rt props ?p) \<noteq> []
      \<or> ingredients (submitResponse rt props ?p) \<noteq> [])
     \<and> \<not> isEmptyResponse (submitResponse rt props ?p)
     \<and> withDefaultNote (submitResponse rt props ?p) = submitResponse rt props ?p"
    by (simp add: withDefaultNote_def)
qed

theorem submit_default_note_unreachable_witness:
  "canSubmit plain_props
     (popupC (run [Paste demo_runtime demo_browser demo_backend demo_paste]))
   \<and> dish_note (submitResponse demo_runtime plain_props
         (popupC (run [Paste demo_runtime demo_browser demo_backend demo_paste]))) = None
   \<and> ingredients (submitResponse demo_runtime plain_props
         (popupC (run [Paste demo_runtime demo_browser demo_backend demo_paste])))
       = [\<lparr>spice_id = asc ''spice-4''\<rparr>]
   \<and> withDefaultNote (submitResponse demo_runtime plain_props
         (popupC (run [Paste demo_runtime demo_browser demo_backend demo_paste])))
       = submitResponse demo_runtime plain_props
           (popupC (run [Paste demo_runtime demo_browser demo_backend demo_paste]))"
proof -
  let ?p = "popupC (run [Paste demo_runtime demo_browser demo_backend demo_paste])"
  have c: "canSubmit plain_props ?p"
    using demo_paste_once by (simp add: canSubmit_def)
  have d: "dish_note (submitResponse demo_runtime plain_props ?p) = None"
    "ingredients (submitResponse demo_runtime plain_props ?p) = [\<lparr>spice_id = asc ''spice-4''\<rparr>]"
    using demo_paste_once by (simp_all add: submitResponse_def trim_def truthy_def asc_def)
  show ?thesis
    using submit_default_note_unreachable
      [of plain_props "[Paste demo_runtime demo_browser demo_backend demo_paste]" demo_runtime]
      c d
    by simp
qed


section \<open>The order of the format checks of a paste\<close>




end
